theory Spec2Isabelle
  imports Complex_Main "HOL-Library.Product_Lexorder"
begin

chapter \<open>The measles report's aggregation layer\<close>

text \<open>
  The repository builds SQL text in Python (\<^verbatim>\<open>data_fetcher.py\<close>,
  \<^verbatim>\<open>choropleth_data.py\<close>), sends it to PostgreSQL and returns the resulting table,
  wrapped in \<^verbatim>\<open>try/except\<close>. The embedding follows that shape: a table is a list of
  rows, an SQL expression is a HOL function on a row, a common table expression is a
  definition named after it, SQL \<^verbatim>\<open>NULL\<close> is \<open>None\<close>, and an exception is a value.
\<close>

section \<open>SQL text values\<close>

text \<open>
  \<^verbatim>\<open>LOWER\<close> on the 26 ASCII capitals; every other character is left as it is.
\<close>

definition lower_char :: "char \<Rightarrow> char" where
  "lower_char c =
     (case map_of (zip ''ABCDEFGHIJKLMNOPQRSTUVWXYZ'' ''abcdefghijklmnopqrstuvwxyz'') c of
        None \<Rightarrow> c
      | Some d \<Rightarrow> d)"

definition sql_lower :: "string \<Rightarrow> string" where
  "sql_lower s = map lower_char s"

fun starts_with :: "string \<Rightarrow> string \<Rightarrow> bool" where
  "starts_with [] s = True"
| "starts_with (p # ps) [] = False"
| "starts_with (p # ps) (c # cs) = (p = c \<and> starts_with ps cs)"

text \<open>
  \<^verbatim>\<open>s LIKE '%p%'\<close> for a pattern \<open>p\<close> without wildcards of its own: \<open>p\<close> occurs
  somewhere in \<open>s\<close>.
\<close>

fun like_contains :: "string \<Rightarrow> string \<Rightarrow> bool" where
  "like_contains p [] = (p = [])"
| "like_contains p (c # cs) = (starts_with p (c # cs) \<or> like_contains p cs)"

definition is_digit :: "char \<Rightarrow> bool" where
  "is_digit c = (c \<in> set ''0123456789'')"

text \<open>The regular expression \<^verbatim>\<open>^[0-9]+$\<close>.\<close>

definition all_digits :: "string \<Rightarrow> bool" where
  "all_digits s = (s \<noteq> [] \<and> list_all is_digit s)"

text \<open>The regular expression \<^verbatim>\<open>[0-9]+\<close>, unanchored: some digit occurs.\<close>

definition has_digit :: "string \<Rightarrow> bool" where
  "has_digit s = list_ex is_digit s"

definition digit_val :: "char \<Rightarrow> nat" where
  "digit_val c = (case map_of (zip ''0123456789'' [0, 1, 2, 3, 4, 5, 6, 7, 8, 9]) c of
                    None \<Rightarrow> 0
                  | Some d \<Rightarrow> d)"

definition nat_of_digits :: "string \<Rightarrow> nat" where
  "nat_of_digits s = foldl (\<lambda>n c. 10 * n + digit_val c) 0 s"

datatype sql_error =
    NumericValueOutOfRange
  | InvalidTextRepresentation
  | OperationalError

text \<open>
  \<^verbatim>\<open>CAST(s AS INTEGER)\<close> and \<^verbatim>\<open>s::int\<close> on text: PostgreSQL's \<^verbatim>\<open>integer\<close> has
  32 bits, and a string of digits beyond \<open>2147483647\<close> raises
  \<^verbatim>\<open>numeric_value_out_of_range\<close>, which aborts the whole query. The code only casts
  strings of digits; anything else raises \<^verbatim>\<open>invalid_text_representation\<close>.
\<close>

definition cast_int :: "string \<Rightarrow> sql_error + int" where
  "cast_int s =
     (if \<not> all_digits s then Inl InvalidTextRepresentation
      else if nat_of_digits s \<le> 2147483647 then Inr (int (nat_of_digits s))
      else Inl NumericValueOutOfRange)"

text \<open>\<^verbatim>\<open>x BETWEEN lo AND hi\<close>.\<close>

definition between :: "int \<Rightarrow> int \<Rightarrow> int \<Rightarrow> bool" where
  "between x lo hi = (lo \<le> x \<and> x \<le> hi)"


section \<open>Demographic classifier\<close>

subsection \<open>Age bands\<close>

text \<open>
  \<^verbatim>\<open>get_measles_age_sex_distribution(location, year, month)\<close>, column \<^verbatim>\<open>age_group\<close>
  of the CTE \<^verbatim>\<open>age_sex_data\<close>: the inner \<^verbatim>\<open>CASE\<close> on the cast value.
\<close>

definition age_sex_data_band :: "int \<Rightarrow> string" where
  "age_sex_data_band n =
     (if between n 0 4 then ''0-4''
      else if between n 5 9 then ''5-9''
      else if between n 10 14 then ''10-14''
      else if between n 15 19 then ''15-19''
      else if between n 20 24 then ''20-24''
      else if between n 25 29 then ''25-29''
      else if between n 30 34 then ''30-34''
      else if between n 35 39 then ''35-39''
      else if between n 40 44 then ''40-44''
      else if between n 45 49 then ''45-49''
      else if n \<ge> 50 then ''50+''
      else ''Unknown'')"

text \<open>
  The outer \<^verbatim>\<open>CASE\<close>: the attribute value comes from a \<^verbatim>\<open>LEFT JOIN\<close> and may be
  \<^verbatim>\<open>NULL\<close>, on which the regular-expression test is not true.
\<close>

definition age_sex_data_age_group :: "string option \<Rightarrow> sql_error + string" where
  "age_sex_data_age_group v =
     (case v of
        None \<Rightarrow> Inr ''Unknown''
      | Some s \<Rightarrow>
          if all_digits s then
            (case cast_int s of Inl e \<Rightarrow> Inl e | Inr n \<Rightarrow> Inr (age_sex_data_band n))
          else Inr ''Unknown'')"

text \<open>
  The first definition of \<^verbatim>\<open>get_measles_age_sex_distribution()\<close> in the file (the one
  without parameters, which the second definition replaces at import time), column
  \<^verbatim>\<open>age_group\<close> of the CTE \<^verbatim>\<open>age_data\<close>.
\<close>

definition age_data_band :: "int \<Rightarrow> string" where
  "age_data_band n =
     (if between n 0 4 then ''0-4''
      else if between n 5 9 then ''5-9''
      else if between n 10 14 then ''10-14''
      else if between n 15 19 then ''15-19''
      else if between n 20 29 then ''20-29''
      else if between n 30 39 then ''30-39''
      else if between n 40 49 then ''40-49''
      else if n \<ge> 50 then ''50+''
      else ''Unknown'')"

definition age_data_age_group :: "string \<Rightarrow> sql_error + string" where
  "age_data_age_group s =
     (if all_digits s then
        (case cast_int s of Inl e \<Rightarrow> Inl e | Inr n \<Rightarrow> Inr (age_data_band n))
      else Inr ''Unknown'')"

text \<open>
  \<^verbatim>\<open>get_measles_demographic_data\<close>, the CTE \<^verbatim>\<open>processed_demographics\<close>. The two
  regular expressions for dates are anchored at the start only.
\<close>

text \<open>\<^verbatim>\<open>^[0-9]{4}-[0-9]{2}-[0-9]{2}\<close>\<close>

definition looks_like_iso_date :: "string \<Rightarrow> bool" where
  "looks_like_iso_date s =
     (length s \<ge> 10 \<and> list_all is_digit (take 4 s) \<and> s ! 4 = CHR ''-'' \<and>
      list_all is_digit (take 2 (drop 5 s)) \<and> s ! 7 = CHR ''-'' \<and>
      list_all is_digit (take 2 (drop 8 s)))"

text \<open>\<^verbatim>\<open>^[0-9]{2}/[0-9]{2}/[0-9]{4}\<close>\<close>

definition looks_like_slash_date :: "string \<Rightarrow> bool" where
  "looks_like_slash_date s =
     (length s \<ge> 10 \<and> list_all is_digit (take 2 s) \<and> s ! 2 = CHR ''/'' \<and>
      list_all is_digit (take 2 (drop 3 s)) \<and> s ! 5 = CHR ''/'' \<and>
      list_all is_digit (take 4 (drop 6 s)))"

text \<open>
  \<^verbatim>\<open>calculated_age\<close>. The two date branches ask the server for
  \<^verbatim>\<open>EXTRACT(YEAR FROM AGE(CURRENT_DATE, ...))\<close>, which depends on the day the query
  runs: \<open>age_of_iso\<close> and \<open>age_of_slash\<close> stand for those two expressions. The result
  \<open>None\<close> is \<^verbatim>\<open>NULL\<close>. \<^verbatim>\<open>REGEXP_REPLACE(v, '[^0-9]', '', 'g')\<close> keeps the digits.
\<close>

definition calculated_age ::
  "(string \<Rightarrow> sql_error + int) \<Rightarrow> (string \<Rightarrow> sql_error + int) \<Rightarrow> string \<Rightarrow> sql_error + int option"
where
  "calculated_age age_of_iso age_of_slash v =
     (if looks_like_iso_date v then map_sum id Some (age_of_iso v)
      else if looks_like_slash_date v then map_sum id Some (age_of_slash v)
      else if all_digits v then map_sum id Some (cast_int v)
      else if like_contains ''month'' (sql_lower v) \<or> like_contains ''week'' (sql_lower v)
        then Inr (Some 0)
      else if has_digit v then map_sum id Some (cast_int (filter is_digit v))
      else Inr None)"

text \<open>The CTE \<^verbatim>\<open>age_sex_processed\<close>, column \<^verbatim>\<open>age_group\<close>.\<close>

definition age_sex_processed_age_group :: "int option \<Rightarrow> string" where
  "age_sex_processed_age_group a =
     (case a of
        None \<Rightarrow> ''Unknown''
      | Some n \<Rightarrow>
          if n < 1 then ''<1 year''
          else if between n 1 4 then ''1-4 years''
          else if between n 5 14 then ''5-14 years''
          else if between n 15 44 then ''15-44 years''
          else if n \<ge> 45 then ''45+ years''
          else ''Unknown'')"

definition demographic_age_group ::
  "(string \<Rightarrow> sql_error + int) \<Rightarrow> (string \<Rightarrow> sql_error + int) \<Rightarrow> string \<Rightarrow> sql_error + string"
where
  "demographic_age_group age_of_iso age_of_slash v =
     map_sum id age_sex_processed_age_group (calculated_age age_of_iso age_of_slash v)"

text \<open>
  \<^verbatim>\<open>get_measles_attack_rates_by_age_sex\<close>, column \<^verbatim>\<open>age_group\<close> of \<^verbatim>\<open>case_counts\<close>:
  the scheme with one wide band, 5 to 14.
\<close>

definition case_counts_band :: "int \<Rightarrow> string" where
  "case_counts_band n =
     (if between n 0 4 then ''0-4''
      else if between n 5 14 then ''5-14''
      else if between n 15 19 then ''15-19''
      else if between n 20 24 then ''20-24''
      else if between n 25 29 then ''25-29''
      else if between n 30 34 then ''30-34''
      else if between n 35 39 then ''35-39''
      else if between n 40 44 then ''40-44''
      else if between n 45 49 then ''45-49''
      else if n \<ge> 50 then ''50+''
      else ''Unknown'')"

definition case_counts_age_group :: "string option \<Rightarrow> sql_error + string" where
  "case_counts_age_group v =
     (case v of
        None \<Rightarrow> Inr ''Unknown''
      | Some s \<Rightarrow>
          if all_digits s then
            (case cast_int s of Inl e \<Rightarrow> Inl e | Inr n \<Rightarrow> Inr (case_counts_band n))
          else Inr ''Unknown'')"

text \<open>
  The band tables as the specification lists them: lower bound, upper bound, label;
  the open band has no upper bound.
\<close>

definition five_year_bands :: "(int \<times> int option \<times> string) list" where
  "five_year_bands =
     [(0, Some 4, ''0-4''), (5, Some 9, ''5-9''), (10, Some 14, ''10-14''),
      (15, Some 19, ''15-19''), (20, Some 24, ''20-24''), (25, Some 29, ''25-29''),
      (30, Some 34, ''30-34''), (35, Some 39, ''35-39''), (40, Some 44, ''40-44''),
      (45, Some 49, ''45-49''), (50, None, ''50+'')]"

definition coarse_bands :: "(int \<times> int option \<times> string) list" where
  "coarse_bands =
     [(0, Some 0, ''<1 year''), (1, Some 4, ''1-4 years''), (5, Some 14, ''5-14 years''),
      (15, Some 44, ''15-44 years''), (45, None, ''45+ years'')]"

definition in_band :: "int \<Rightarrow> int \<times> int option \<times> string \<Rightarrow> bool" where
  "in_band n b = (case b of (lo, hi, l) \<Rightarrow> lo \<le> n \<and> (case hi of None \<Rightarrow> True | Some h \<Rightarrow> n \<le> h))"

definition band_label :: "int \<times> int option \<times> string \<Rightarrow> string" where
  "band_label b = snd (snd b)"

subsection \<open>Sex categories\<close>

text \<open>
  The \<^verbatim>\<open>CASE\<close> shared, word for word, by \<^verbatim>\<open>gender_classification\<close>
  (\<^verbatim>\<open>get_measles_gender_distribution\<close>), \<^verbatim>\<open>age_sex_data\<close>
  (\<^verbatim>\<open>get_measles_age_sex_distribution\<close>) and \<^verbatim>\<open>age_sex_processed\<close>
  (\<^verbatim>\<open>get_measles_demographic_data\<close>). On \<^verbatim>\<open>NULL\<close> no \<^verbatim>\<open>WHEN\<close> is true.
\<close>

definition sex_category :: "string option \<Rightarrow> string" where
  "sex_category v =
     (case v of
        None \<Rightarrow> ''Unknown''
      | Some s \<Rightarrow>
          if like_contains ''male'' (sql_lower s) \<and> \<not> like_contains ''female'' (sql_lower s)
            then ''Male''
          else if like_contains ''female'' (sql_lower s) then ''Female''
          else ''Unknown'')"

text \<open>
  \<^verbatim>\<open>get_measles_weekly_by_sex\<close>, column \<^verbatim>\<open>sex_group\<close> of the CTE \<^verbatim>\<open>sex_data\<close>:
  equality with the lowered value, not \<^verbatim>\<open>LIKE\<close>.
\<close>

definition sex_data_sex_group :: "string option \<Rightarrow> string" where
  "sex_data_sex_group v =
     (case v of
        None \<Rightarrow> ''Unknown''
      | Some s \<Rightarrow>
          if sql_lower s = ''male'' then ''Male''
          else if sql_lower s = ''female'' then ''Female''
          else ''Unknown'')"


section \<open>Rate normaliser\<close>

text \<open>
  PostgreSQL's \<^verbatim>\<open>numeric\<close> is exact decimal arithmetic; it is modelled by the reals,
  on which the quotients that occur are computed exactly. \<^verbatim>\<open>ROUND(x, d)\<close> on
  \<^verbatim>\<open>numeric\<close> rounds halves away from zero.
\<close>

definition sql_round :: "real \<Rightarrow> nat \<Rightarrow> real" where
  "sql_round x d =
     (if x \<ge> 0 then of_int \<lfloor>x * 10 ^ d + 1 / 2\<rfloor> / 10 ^ d
      else - (of_int \<lfloor>- x * 10 ^ d + 1 / 2\<rfloor> / 10 ^ d))"

text \<open>
  \<^verbatim>\<open>choropleth_data.py\<close>, \<^verbatim>\<open>get_measles_attack_rates_by_district_cumulative\<close>:
  \<^verbatim>\<open>ROUND((total_cases * 100000.0 / GREATEST(total_cases, 1000)), 2)\<close>.
\<close>

definition attack_rate_per_100k :: "nat \<Rightarrow> real" where
  "attack_rate_per_100k total_cases =
     sql_round (of_nat total_cases * 100000 / of_nat (max total_cases 1000)) 2"

text \<open>
  \<^verbatim>\<open>get_measles_current_case_rates_by_district_21_days\<close>:
  \<^verbatim>\<open>ROUND((current_cases * 100000.0 / GREATEST(current_cases, 500)), 2)\<close>.
\<close>

definition current_rate_per_100k :: "nat \<Rightarrow> real" where
  "current_rate_per_100k current_cases =
     sql_round (of_nat current_cases * 100000 / of_nat (max current_cases 500)) 2"

text \<open>
  \<^verbatim>\<open>get_measles_attack_rates_by_age_sex\<close> computes its rates in pandas:
  \<^verbatim>\<open>(df['female_cases'] * 100000 / df['female_cases'].sum()).round(2)\<close>. The column is
  of 64-bit floats there; the model computes the quotient exactly and rounds it the way
  \<^verbatim>\<open>numpy\<close> does, halves to the even neighbour. A column whose sum is zero holds
  zeros only, and \<open>0 / 0\<close> is \<^verbatim>\<open>NaN\<close> in pandas, not an exception: \<open>None\<close> here.
\<close>

definition round_half_even :: "real \<Rightarrow> int" where
  "round_half_even x =
     (if x - of_int \<lfloor>x\<rfloor> < 1 / 2 then \<lfloor>x\<rfloor>
      else if x - of_int \<lfloor>x\<rfloor> > 1 / 2 then \<lfloor>x\<rfloor> + 1
      else if even \<lfloor>x\<rfloor> then \<lfloor>x\<rfloor>
      else \<lfloor>x\<rfloor> + 1)"

definition np_round :: "real \<Rightarrow> nat \<Rightarrow> real" where
  "np_round x d = of_int (round_half_even (x * 10 ^ d)) / 10 ^ d"

definition attack_rate_column :: "nat list \<Rightarrow> real option list" where
  "attack_rate_column cases =
     map (\<lambda>c. if sum_list cases = 0 then None
              else Some (np_round (of_nat c * 100000 / of_nat (sum_list cases)) 2)) cases"

text \<open>
  The branch \<^verbatim>\<open>if not df.empty\<close> of \<^verbatim>\<open>get_measles_attack_rates_by_age_sex\<close>: a row
  of \<open>df\<close> is (age group, female cases, male cases), and the two rate columns are
  appended to it.
\<close>

definition with_attack_rates ::
  "(string \<times> nat \<times> nat) list \<Rightarrow> (string \<times> nat \<times> nat \<times> real option \<times> real option) list"
where
  "with_attack_rates df =
     map (\<lambda>((g, f, m), fr, mr). (g, f, m, fr, mr))
       (zip df (zip (attack_rate_column (map (\<lambda>(g, f, m). f) df))
                    (attack_rate_column (map (\<lambda>(g, f, m). m) df))))"


section \<open>Event filter builder\<close>

text \<open>Python's \<^verbatim>\<open>str(n)\<close> on an integer.\<close>

definition digit_char :: "nat \<Rightarrow> char" where
  "digit_char n = ''0123456789'' ! n"

function string_of_nat :: "nat \<Rightarrow> string" where
  "string_of_nat n =
     (if n < 10 then [digit_char n] else string_of_nat (n div 10) @ [digit_char (n mod 10)])"
  by pat_completeness auto
termination
  by (relation "measure id") auto

declare string_of_nat.simps [simp del]

definition py_str :: "int \<Rightarrow> string" where
  "py_str i = (if i < 0 then CHR ''-'' # string_of_nat (nat (- i)) else string_of_nat (nat i))"

text \<open>
  \<^verbatim>\<open>month.split()[0]\<close>: the first run of characters that are not white space;
  \<^verbatim>\<open>IndexError\<close> when there is none. A character stands for the code point of its
  number; white space is what \<^verbatim>\<open>str.isspace\<close> accepts among the code points below
  256: the blank, the controls \<open>0x09\<close> to \<open>0x0D\<close> and \<open>0x1C\<close> to \<open>0x1F\<close>, the next
  line control \<open>0x85\<close> and the no-break space \<open>0xA0\<close>.
\<close>

datatype py_error = IndexError

definition is_space :: "char \<Rightarrow> bool" where
  "is_space c =
     (c \<in> set [CHR '' '', CHR 0x09, CHR 0x0A, CHR 0x0B, CHR 0x0C, CHR 0x0D,
               CHR 0x1C, CHR 0x1D, CHR 0x1E, CHR 0x1F, CHR 0x85, CHR 0xA0])"

definition first_token :: "string \<Rightarrow> py_error + string" where
  "first_token s =
     (case dropWhile is_space s of
        [] \<Rightarrow> Inl IndexError
      | t \<Rightarrow> Inr (takeWhile (\<lambda>c. \<not> is_space c) t))"

definition month_table :: "(string \<times> int) list" where
  "month_table =
     [(''January'', 1), (''February'', 2), (''March'', 3), (''April'', 4),
      (''May'', 5), (''June'', 6), (''July'', 7), (''August'', 8),
      (''September'', 9), (''October'', 10), (''November'', 11), (''December'', 12)]"

text \<open>\<^verbatim>\<open>{...}.get(month_name, 1)\<close>\<close>

definition month_num :: "string \<Rightarrow> int" where
  "month_num month_name = (case map_of month_table month_name of None \<Rightarrow> 1 | Some n \<Rightarrow> n)"

text \<open>
  The conditions the functions append to \<^verbatim>\<open>date_conditions\<close>, as data:
  \<^verbatim>\<open>EXTRACT(YEAR FROM event_date) = y\<close>, \<^verbatim>\<open>EXTRACT(MONTH FROM event_date) = m\<close>,
  \<^verbatim>\<open>event_date >= CURRENT_DATE - INTERVAL 'n days'\<close> and
  \<^verbatim>\<open>event_date >= CURRENT_TIMESTAMP - INTERVAL 'n hours'\<close>.
\<close>

datatype date_condition =
    Year_Eq int
  | Month_Eq int
  | Last_Days int
  | Last_Hours int

text \<open>
  The block under \<^verbatim>\<open># Add time filtering\<close>, the same in every function that takes
  \<open>year\<close> and \<open>month\<close>. Python's truth test: \<open>None\<close> and \<open>0\<close> are false for \<open>year\<close>,
  \<open>None\<close> and the empty string for \<open>month\<close>.
\<close>

definition time_filtering :: "int option \<Rightarrow> string option \<Rightarrow> py_error + date_condition list" where
  "time_filtering year month =
     (case year of
        None \<Rightarrow> Inr []
      | Some y \<Rightarrow>
          if y = 0 then Inr []
          else
            (case month of
               None \<Rightarrow> Inr [Year_Eq y]
             | Some m \<Rightarrow>
                 if m \<noteq> [] \<and> m \<noteq> ''All Months '' @ py_str y then
                   (case first_token m of
                      Inl e \<Rightarrow> Inl e
                    | Inr month_name \<Rightarrow> Inr [Year_Eq y, Month_Eq (month_num month_name)])
                 else Inr [Year_Eq y]))"

text \<open>The block under \<^verbatim>\<open># Add recent activity filters\<close>.\<close>

definition recent_activity_filters :: "int option \<Rightarrow> int option \<Rightarrow> date_condition list" where
  "recent_activity_filters days_filter hours_filter =
     (case days_filter of
        Some d \<Rightarrow> if d \<noteq> 0 then [Last_Days d] else
          (case hours_filter of Some h \<Rightarrow> if h \<noteq> 0 then [Last_Hours h] else [] | None \<Rightarrow> [])
      | None \<Rightarrow>
          (case hours_filter of Some h \<Rightarrow> if h \<noteq> 0 then [Last_Hours h] else [] | None \<Rightarrow> []))"


section \<open>The warehouse\<close>

text \<open>
  A date carries what the queries extract from it. \<open>day_number\<close> tells two days of the
  same week apart.
\<close>

record pg_date =
  day_number :: int
  extract_year :: int
  extract_month :: int
  extract_week :: int

text \<open>\<^verbatim>\<open>dwh.fact_eidsr_event_data\<close>\<close>

record event_data =
  event_id :: nat
  tracked_entity_instance_id :: "nat option"
  event_date :: "pg_date option"
  dim_org_hierarchy_key :: "nat option"
  data_element_id :: string
  data_element_display_name :: "string option"
  data_value :: "string option"

text \<open>\<^verbatim>\<open>dwh.dim_eidsr_org_hierarchy\<close>\<close>

record org_hierarchy =
  org_hierarchy_key :: nat
  district_name :: "string option"
  region_name :: "string option"

text \<open>\<^verbatim>\<open>dwh.fact_eidsr_tracked_entity_attributes\<close>\<close>

record entity_attribute =
  entity_id :: nat
  attribute_id :: string
  display_name :: string
  attribute_value :: "string option"

record dwh =
  fact_eidsr_event_data :: "event_data list"
  dim_eidsr_org_hierarchy :: "org_hierarchy list"
  fact_eidsr_tracked_entity_attributes :: "entity_attribute list"

text \<open>
  The clock of the server: whether a date lies within the last \<open>n\<close> days, and within
  the last \<open>n\<close> hours.
\<close>

record clock =
  within_days :: "int \<Rightarrow> pg_date \<Rightarrow> bool"
  within_hours :: "int \<Rightarrow> pg_date \<Rightarrow> bool"

definition condition_holds :: "clock \<Rightarrow> pg_date \<Rightarrow> date_condition \<Rightarrow> bool" where
  "condition_holds ck d c =
     (case c of
        Year_Eq y \<Rightarrow> extract_year d = y
      | Month_Eq m \<Rightarrow> extract_month d = m
      | Last_Days n \<Rightarrow> within_days ck n d
      | Last_Hours n \<Rightarrow> within_hours ck n d)"

text \<open>\<^verbatim>\<open>" AND " + " AND ".join(date_conditions)\<close>, as a predicate on the date.\<close>

definition date_filter :: "clock \<Rightarrow> date_condition list \<Rightarrow> pg_date \<Rightarrow> bool" where
  "date_filter ck conds d = list_all (condition_holds ck d) conds"

text \<open>
  \<^verbatim>\<open>data_element_id = 'qIlO7yEpiVv' AND data_value = 'Measles (B05.0_B05.9)'\<close>
\<close>

definition is_measles :: "event_data \<Rightarrow> bool" where
  "is_measles e =
     (data_element_id e = ''qIlO7yEpiVv'' \<and> data_value e = Some ''Measles (B05.0_B05.9)'')"

text \<open>\<^verbatim>\<open>COUNT(DISTINCT x)\<close> over the values that are not \<^verbatim>\<open>NULL\<close>.\<close>

definition count_distinct :: "'a list \<Rightarrow> nat" where
  "count_distinct xs = length (remdups xs)"

text \<open>An SQL comparison of a nullable text with a constant is true on no \<^verbatim>\<open>NULL\<close>.\<close>

definition not_null_and :: "(string \<Rightarrow> bool) \<Rightarrow> string option \<Rightarrow> bool" where
  "not_null_and P v = (case v of None \<Rightarrow> False | Some s \<Rightarrow> P s)"

text \<open>
  The outcome of opening the connection and running a query: the tables the query reads,
  or the exception that \<^verbatim>\<open>engine.connect()\<close> or \<^verbatim>\<open>pd.read_sql_query\<close> raises.
\<close>

type_synonym connection = "sql_error + dwh"


section \<open>District reporting metrics\<close>

text \<open>
  \<^verbatim>\<open>get_district_reporting_metrics\<close>. The location filter the function builds from its
  \<open>location\<close> argument is a condition on a row of the hierarchy, \<open>location_filter\<close>
  here; it is \<open>\<lambda>_. True\<close> for the national level.
\<close>

record reporting_metrics =
  total_districts :: nat
  districts_with_cases :: nat
  districts_reporting_recent :: nat
  districts_reporting_24h :: nat

definition no_metrics :: reporting_metrics where
  "no_metrics = \<lparr>total_districts = 0, districts_with_cases = 0,
                  districts_reporting_recent = 0, districts_reporting_24h = 0\<rparr>"

text \<open>The CTE \<^verbatim>\<open>measles_events\<close> of this query: event id, date, hierarchy key.\<close>

definition metrics_measles_events ::
  "clock \<Rightarrow> date_condition list \<Rightarrow> dwh \<Rightarrow> (nat \<times> pg_date \<times> nat option) list"
where
  "metrics_measles_events ck conds db =
     remdups (List.map_filter
       (\<lambda>e. case event_date e of
              None \<Rightarrow> None
            | Some d \<Rightarrow>
                if is_measles e \<and> date_filter ck conds d
                then Some (event_id e, d, dim_org_hierarchy_key e)
                else None)
       (fact_eidsr_event_data db))"

definition all_districts :: "(org_hierarchy \<Rightarrow> bool) \<Rightarrow> dwh \<Rightarrow> (string \<times> nat) list" where
  "all_districts location_filter db =
     remdups (List.map_filter
       (\<lambda>doh. case district_name doh of
                None \<Rightarrow> None
              | Some n \<Rightarrow>
                  if n \<noteq> ''Unknown'' \<and> n \<noteq> ''1 Test District'' \<and> location_filter doh
                  then Some (n, org_hierarchy_key doh)
                  else None)
       (dim_eidsr_org_hierarchy db))"

definition metrics_districts_with_cases ::
  "(org_hierarchy \<Rightarrow> bool) \<Rightarrow> (nat \<times> pg_date \<times> nat option) list \<Rightarrow> dwh \<Rightarrow> string list"
where
  "metrics_districts_with_cases location_filter measles_events db =
     remdups (concat (map
       (\<lambda>(i, d, k). List.map_filter
          (\<lambda>doh. case district_name doh of
                   None \<Rightarrow> None
                 | Some n \<Rightarrow>
                     if k = Some (org_hierarchy_key doh) \<and> location_filter doh
                     then Some n else None)
          (dim_eidsr_org_hierarchy db))
       measles_events))"

definition get_district_reporting_metrics ::
  "connection \<Rightarrow> clock \<Rightarrow> (org_hierarchy \<Rightarrow> bool) \<Rightarrow> int option \<Rightarrow> string option \<Rightarrow>
   int option \<Rightarrow> int option \<Rightarrow> reporting_metrics"
where
  "get_district_reporting_metrics conn ck location_filter year month days_filter hours_filter =
     (case conn of
        Inl e \<Rightarrow> no_metrics
      | Inr db \<Rightarrow>
          (case time_filtering year month of
             Inl e \<Rightarrow> no_metrics
           | Inr date_conditions \<Rightarrow>
               let conds = date_conditions @ recent_activity_filters days_filter hours_filter;
                   with_cases = count_distinct
                     (metrics_districts_with_cases location_filter
                        (metrics_measles_events ck conds db) db)
               in \<lparr>total_districts = count_distinct (map fst (all_districts location_filter db)),
                   districts_with_cases = with_cases,
                   districts_reporting_recent = with_cases,
                   districts_reporting_24h = with_cases\<rparr>))"


section \<open>Query building blocks\<close>

text \<open>
  \<^verbatim>\<open>xs LEFT JOIN ys ON on\<close>: every row of \<open>xs\<close> with each row of \<open>ys\<close> that matches, and
  with \<^verbatim>\<open>NULL\<close>s when none does.
\<close>

definition left_join :: "('a \<Rightarrow> 'b \<Rightarrow> bool) \<Rightarrow> 'a list \<Rightarrow> 'b list \<Rightarrow> ('a \<times> 'b option) list" where
  "left_join on xs ys =
     concat (map (\<lambda>x. case filter (on x) ys of
                         [] \<Rightarrow> [(x, None)]
                       | m # ms \<Rightarrow> map (\<lambda>y. (x, Some y)) (m # ms)) xs)"

text \<open>\<^verbatim>\<open>xs JOIN ys ON on\<close>\<close>

definition inner_join :: "('a \<Rightarrow> 'b \<Rightarrow> bool) \<Rightarrow> 'a list \<Rightarrow> 'b list \<Rightarrow> ('a \<times> 'b) list" where
  "inner_join on xs ys = concat (map (\<lambda>x. map (\<lambda>y. (x, y)) (filter (on x) ys)) xs)"

text \<open>
  \<^verbatim>\<open>me.dim_org_hierarchy_key = doh.dim_org_hierarchy_key\<close>: a \<^verbatim>\<open>NULL\<close> key matches
  nothing.
\<close>

definition same_key :: "nat option \<Rightarrow> org_hierarchy \<Rightarrow> bool" where
  "same_key k doh = (k = Some (org_hierarchy_key doh))"

text \<open>
  \<^verbatim>\<open>ORDER BY key DESC\<close>. Rows with equal keys keep the order they come in; SQL leaves
  their order open.
\<close>

definition order_by_desc :: "('a \<Rightarrow> 'k::linorder) \<Rightarrow> 'a list \<Rightarrow> 'a list" where
  "order_by_desc key xs = rev (sort_key key (rev xs))"

text \<open>\<^verbatim>\<open>MAX(x)\<close> over a column without \<^verbatim>\<open>NULL\<close>s: \<^verbatim>\<open>NULL\<close> on no rows.\<close>

definition sql_max :: "int list \<Rightarrow> int option" where
  "sql_max xs = (case xs of [] \<Rightarrow> None | x # ys \<Rightarrow> Some (fold max ys x))"

text \<open>
  \<^verbatim>\<open>LAG(x) OVER (ORDER BY ...)\<close> on the column \<open>xs\<close> of rows already in the order of the
  window: the value of the row before, \<^verbatim>\<open>NULL\<close> on the first row.
\<close>

definition lag :: "'a list \<Rightarrow> 'a option list" where
  "lag xs = take (length xs) (None # map Some xs)"

text \<open>
  \<^verbatim>\<open>SUM(x) OVER (ORDER BY ... ROWS UNBOUNDED PRECEDING)\<close> on the column \<open>xs\<close> of rows in
  the order of the window, starting from \<open>acc\<close>.
\<close>

fun running_total :: "nat \<Rightarrow> nat list \<Rightarrow> nat list" where
  "running_total acc [] = []"
| "running_total acc (x # xs) = (acc + x) # running_total (acc + x) xs"

text \<open>
  The percent change of both aggregators:
  \<^verbatim>\<open>CASE WHEN prev IS NULL OR prev = 0 THEN NULL
   ELSE ROUND(((cur - prev)::DECIMAL / prev) * 100, 1) END\<close>.
\<close>

definition percent_change :: "nat \<Rightarrow> nat option \<Rightarrow> real option" where
  "percent_change cur prev =
     (case prev of
        None \<Rightarrow> None
      | Some p \<Rightarrow>
          if p = 0 then None
          else Some (sql_round ((real_of_int (int cur - int p) / real p) * 100) 1))"


section \<open>Epi-week aggregator\<close>

text \<open>
  \<^verbatim>\<open>get_measles_weekly_data(year, start_date, end_date)\<close>. A bucket is a pair of
  (year, week) and the weekly count. \<open>date_range\<close> is the condition that
  \<open>start_date\<close> and \<open>end_date\<close> splice into the first CTE; it is \<open>\<lambda>d. True\<close> when
  neither is given.
\<close>

type_synonym bucket = "(int \<times> int) \<times> nat"

record weekly_row =
  Year :: int
  Epi_Week :: int
  Weekly_Confirmed_Cases :: nat
  Cumulative_Confirmed_Cases :: nat
  Percent_Change :: "real option"

definition year_week :: "pg_date \<Rightarrow> int \<times> int" where
  "year_week d = (extract_year d, extract_week d)"

text \<open>The CTE \<^verbatim>\<open>all_measles_events\<close> of the query without a year.\<close>

definition all_measles_events :: "(pg_date \<Rightarrow> bool) \<Rightarrow> dwh \<Rightarrow> (nat \<times> pg_date) list" where
  "all_measles_events date_range db =
     remdups (List.map_filter
       (\<lambda>e. case event_date e of
              None \<Rightarrow> None
            | Some d \<Rightarrow> if is_measles e \<and> date_range d then Some (event_id e, d) else None)
       (fact_eidsr_event_data db))"

text \<open>
  \<^verbatim>\<open>GROUP BY EXTRACT(YEAR FROM event_date), EXTRACT(WEEK FROM event_date)\<close> with
  \<^verbatim>\<open>COUNT(DISTINCT event_id)\<close>: the CTEs \<^verbatim>\<open>all_weekly_data\<close> and, before its
  \<^verbatim>\<open>LIMIT\<close>, \<^verbatim>\<open>weekly_data\<close>.
\<close>

definition all_weekly_data :: "(nat \<times> pg_date) list \<Rightarrow> bucket list" where
  "all_weekly_data events =
     map (\<lambda>k. (k, count_distinct (map fst (filter (\<lambda>(i, d). year_week d = k) events))))
       (remdups (map (\<lambda>(i, d). year_week d) events))"

text \<open>
  The scalar subquery of \<^verbatim>\<open>cumulative_all_data\<close>:
  \<^verbatim>\<open>SELECT SUM(awd2.weekly_cases) FROM all_weekly_data awd2
   WHERE (awd2.year < oad.year) OR (awd2.year = oad.year AND awd2.epi_week <= oad.epi_week)\<close>.
\<close>

definition cumulative_cases :: "bucket list \<Rightarrow> int \<times> int \<Rightarrow> nat" where
  "cumulative_cases awd k =
     sum_list (map snd
       (filter (\<lambda>(k2, c). fst k2 < fst k \<or> (fst k2 = fst k \<and> snd k2 \<le> snd k)) awd))"

definition weekly_row_of :: "bucket \<Rightarrow> nat \<Rightarrow> nat option \<Rightarrow> weekly_row" where
  "weekly_row_of b cum prev =
     \<lparr>Year = fst (fst b), Epi_Week = snd (fst b), Weekly_Confirmed_Cases = snd b,
      Cumulative_Confirmed_Cases = cum, Percent_Change = percent_change (snd b) prev\<rparr>"

text \<open>The query of the branch \<^verbatim>\<open>if year is None\<close>.\<close>

definition cumulative_weekly_query :: "(pg_date \<Rightarrow> bool) \<Rightarrow> dwh \<Rightarrow> weekly_row list" where
  "cumulative_weekly_query date_range db =
     (let awd = all_weekly_data (all_measles_events date_range db);
          ordered_all_data = take 10 (order_by_desc fst awd)
      in map (\<lambda>(oad, prev_week_cases).
                weekly_row_of oad (cumulative_cases awd (fst oad)) prev_week_cases)
           (zip ordered_all_data (lag (map snd ordered_all_data))))"

text \<open>
  The query of the branch for one year. \<^verbatim>\<open>measles_events\<close> keeps rows without a
  date unless a date range is given; \<^verbatim>\<open>weekly_data\<close> drops them, keeps the target
  year and carries the \<^verbatim>\<open>LIMIT 10\<close>. The window sum runs over its rows in ascending
  order, the \<^verbatim>\<open>LAG\<close> over its rows in descending order.
\<close>

definition year_measles_events :: "(pg_date \<Rightarrow> bool) \<Rightarrow> dwh \<Rightarrow> (nat \<times> pg_date option) list" where
  "year_measles_events date_range db =
     remdups (map (\<lambda>e. (event_id e, event_date e))
       (filter (\<lambda>e. is_measles e \<and> (case event_date e of None \<Rightarrow> True | Some d \<Rightarrow> date_range d))
          (fact_eidsr_event_data db)))"

definition year_buckets :: "int \<Rightarrow> (nat \<times> pg_date option) list \<Rightarrow> bucket list" where
  "year_buckets target_year_value measles_events =
     all_weekly_data (List.map_filter
       (\<lambda>(i, d). case d of
                   None \<Rightarrow> None
                 | Some d' \<Rightarrow> if extract_year d' = target_year_value then Some (i, d') else None)
       measles_events)"

definition weekly_data :: "int \<Rightarrow> (nat \<times> pg_date option) list \<Rightarrow> bucket list" where
  "weekly_data target_year_value measles_events =
     take 10 (order_by_desc fst (year_buckets target_year_value measles_events))"

definition single_year_weekly_query :: "int \<Rightarrow> (pg_date \<Rightarrow> bool) \<Rightarrow> dwh \<Rightarrow> weekly_row list" where
  "single_year_weekly_query year date_range db =
     (let ordered_data = weekly_data year (year_measles_events date_range db);
          cumulative = rev (running_total 0 (rev (map snd ordered_data)))
      in map (\<lambda>(od, cum, prev_week_cases). weekly_row_of od cum prev_week_cases)
           (zip ordered_data (zip cumulative (lag (map snd ordered_data)))))"

definition get_measles_weekly_data ::
  "connection \<Rightarrow> int option \<Rightarrow> (pg_date \<Rightarrow> bool) \<Rightarrow> weekly_row list"
where
  "get_measles_weekly_data conn year date_range =
     (case conn of
        Inl e \<Rightarrow> []
      | Inr db \<Rightarrow>
          (case year of
             None \<Rightarrow> cumulative_weekly_query date_range db
           | Some y \<Rightarrow> single_year_weekly_query y date_range db))"


section \<open>District aggregator\<close>

text \<open>
  \<^verbatim>\<open>get_measles_top_10_districts(year)\<close>. The year filter is spliced in whenever
  \<open>year\<close> is not \<open>None\<close>.
\<close>

record district_row =
  District :: string
  Total_Cases :: nat
  Total_Deaths :: nat
  Cases_Last_Epiweek :: nat
  Deaths_Last_Epiweek :: nat
  Percentage_Change_in_Cases :: "real option"

text \<open>
  The CTE \<^verbatim>\<open>measles_events\<close>: event id, date and hierarchy key; \<^verbatim>\<open>epi_week\<close> and
  \<^verbatim>\<open>year\<close> are read off the date.
\<close>

definition top_measles_events :: "int option \<Rightarrow> dwh \<Rightarrow> (nat \<times> pg_date \<times> nat option) list" where
  "top_measles_events year db =
     remdups (List.map_filter
       (\<lambda>e. case event_date e of
              None \<Rightarrow> None
            | Some d \<Rightarrow>
                if is_measles e \<and> (case year of None \<Rightarrow> True | Some y \<Rightarrow> extract_year d = y)
                then Some (event_id e, d, dim_org_hierarchy_key e)
                else None)
       (fact_eidsr_event_data db))"

text \<open>
  The CTE \<^verbatim>\<open>death_events\<close>: event id and \<^verbatim>\<open>is_death\<close>. Its \<^verbatim>\<open>LIKE\<close> on the display
  name is case sensitive.
\<close>

definition death_events :: "dwh \<Rightarrow> (nat \<times> nat) list" where
  "death_events db =
     remdups (map
       (\<lambda>e2. (event_id e2,
               if not_null_and (\<lambda>v. like_contains ''death'' (sql_lower v) \<or>
                                     like_contains ''died'' (sql_lower v) \<or>
                                     like_contains ''fatal'' (sql_lower v)) (data_value e2)
               then 1 else 0))
       (filter (\<lambda>e2. not_null_and (\<lambda>n. like_contains ''outcome'' n \<or> like_contains ''status'' n \<or>
                                         like_contains ''result'' n) (data_element_display_name e2))
          (fact_eidsr_event_data db)))"

text \<open>
  The CTE \<^verbatim>\<open>latest_epi_week\<close>:
  \<^verbatim>\<open>SELECT MAX(year) as max_year, MAX(epi_week) as max_week FROM measles_events\<close>.
\<close>

definition latest_epi_week :: "(nat \<times> pg_date \<times> nat option) list \<Rightarrow> int option \<times> int option" where
  "latest_epi_week measles_events =
     (sql_max (map (\<lambda>(i, d, k). extract_year d) measles_events),
      sql_max (map (\<lambda>(i, d, k). extract_week d) measles_events))"

text \<open>
  The CTE \<^verbatim>\<open>previous_epi_week\<close>, as (\<^verbatim>\<open>prev_year\<close>, \<^verbatim>\<open>prev_week\<close>). On a
  \<^verbatim>\<open>NULL\<close> week the test \<^verbatim>\<open>max_week = 1\<close> is not true and the \<^verbatim>\<open>ELSE\<close> branches
  apply.
\<close>

definition previous_epi_week :: "int option \<times> int option \<Rightarrow> int option \<times> int option" where
  "previous_epi_week lew =
     (case lew of (max_year, max_week) \<Rightarrow>
        (if max_week = Some 1 then map_option (\<lambda>y. y - 1) max_year else max_year,
         if max_week = Some 1 then Some 52 else map_option (\<lambda>w. w - 1) max_week))"

text \<open>
  The CTE \<^verbatim>\<open>district_data\<close>, without the columns of the two cross joins, which are
  the same on every row: district name, event id, week, year, \<^verbatim>\<open>is_death\<close>.
\<close>

definition district_data ::
  "(nat \<times> pg_date \<times> nat option) list \<Rightarrow> (nat \<times> nat) list \<Rightarrow> dwh \<Rightarrow>
   (string \<times> nat \<times> int \<times> int \<times> nat) list"
where
  "district_data measles_events deaths db =
     List.map_filter
       (\<lambda>(((i, d, k), doh), de).
          if not_null_and (\<lambda>n. n \<noteq> ''Unknown'') (Option.bind doh district_name)
          then Some (case Option.bind doh district_name of
                       None \<Rightarrow> ''Unknown District'' | Some n \<Rightarrow> n,
                     i, extract_week d, extract_year d,
                     case de of None \<Rightarrow> 0 | Some (j, is_death) \<Rightarrow> is_death)
          else None)
       (left_join (\<lambda>((i, d, k), doh) (j, is_death). i = j)
          (left_join (\<lambda>(i, d, k) doh. same_key k doh) measles_events (dim_eidsr_org_hierarchy db))
          deaths)"

text \<open>
  The CTE \<^verbatim>\<open>district_summary\<close>: name, total cases, total deaths, cases and deaths of
  the last epi-week, cases of the week before.
\<close>

definition in_week :: "int option \<times> int option \<Rightarrow> string \<times> nat \<times> int \<times> int \<times> nat \<Rightarrow> bool" where
  "in_week yw dd = (case dd of (n, i, w, y, x) \<Rightarrow> Some y = fst yw \<and> Some w = snd yw)"

definition district_summary ::
  "int option \<times> int option \<Rightarrow> int option \<times> int option \<Rightarrow>
   (string \<times> nat \<times> int \<times> int \<times> nat) list \<Rightarrow> (string \<times> nat \<times> nat \<times> nat \<times> nat \<times> nat) list"
where
  "district_summary lew pew dd =
     map (\<lambda>n. let rows = filter (\<lambda>r. fst r = n) dd in
            (n,
             count_distinct (map (\<lambda>(n, i, w, y, x). i) rows),
             sum_list (map (\<lambda>(n, i, w, y, x). x) rows),
             count_distinct (map (\<lambda>(n, i, w, y, x). i) (filter (in_week lew) rows)),
             sum_list (map (\<lambda>(n, i, w, y, x). x) (filter (in_week lew) rows)),
             count_distinct (map (\<lambda>(n, i, w, y, x). i) (filter (in_week pew) rows))))
       (remdups (map fst dd))"

text \<open>The final \<^verbatim>\<open>SELECT\<close>, with its \<^verbatim>\<open>WHERE\<close>, \<^verbatim>\<open>ORDER BY\<close> and \<^verbatim>\<open>LIMIT 12\<close>.\<close>

definition top_districts_select ::
  "(string \<times> nat \<times> nat \<times> nat \<times> nat \<times> nat) list \<Rightarrow> district_row list"
where
  "top_districts_select ds =
     map (\<lambda>(n, total_cases, total_deaths, cases_last, deaths_last, cases_prev).
            \<lparr>District = n, Total_Cases = total_cases, Total_Deaths = total_deaths,
             Cases_Last_Epiweek = cases_last, Deaths_Last_Epiweek = deaths_last,
             Percentage_Change_in_Cases = percent_change cases_last (Some cases_prev)\<rparr>)
       (take 12
          (order_by_desc (\<lambda>(n, total_cases, total_deaths, cases_last, deaths_last, cases_prev).
                            (total_cases, cases_last))
             (filter (\<lambda>(n, total_cases, total_deaths, cases_last, deaths_last, cases_prev).
                        total_cases > 0 \<and> \<not> like_contains ''Test District'' n \<and>
                        n \<noteq> ''Unknown District'') ds)))"

definition top_districts_query :: "int option \<Rightarrow> dwh \<Rightarrow> district_row list" where
  "top_districts_query year db =
     (let measles_events = top_measles_events year db;
          lew = latest_epi_week measles_events
      in top_districts_select
           (district_summary lew (previous_epi_week lew)
              (district_data measles_events (death_events db) db)))"

definition get_measles_top_10_districts :: "connection \<Rightarrow> int option \<Rightarrow> district_row list" where
  "get_measles_top_10_districts conn year =
     (case conn of Inl e \<Rightarrow> [] | Inr db \<Rightarrow> top_districts_query year db)"

text \<open>
  \<^verbatim>\<open>get_measles_deaths_by_district(location, year, month)\<close>, the definition in force
  (the second one in the file). The date conditions apply to \<^verbatim>\<open>events.event_date\<close>,
  which this query does not require to be there; a condition is true on no \<^verbatim>\<open>NULL\<close>.
  The second join reads the district name again from the hierarchy, so the group key
  is a nullable text.
\<close>

definition date_filter_nullable :: "clock \<Rightarrow> date_condition list \<Rightarrow> pg_date option \<Rightarrow> bool" where
  "date_filter_nullable ck conds d =
     (case d of None \<Rightarrow> conds = [] | Some d' \<Rightarrow> date_filter ck conds d')"

definition joined_data ::
  "clock \<Rightarrow> (org_hierarchy \<Rightarrow> bool) \<Rightarrow> date_condition list \<Rightarrow> dwh \<Rightarrow> (nat option \<times> nat option) list"
where
  "joined_data ck location_filter conds db =
     List.map_filter
       (\<lambda>((events, outcome), doh).
          if is_measles events \<and>
             not_null_and (\<lambda>v. sql_lower v = ''dead'') (Option.bind outcome attribute_value) \<and>
             (case doh of None \<Rightarrow> False
              | Some h \<Rightarrow> district_name h \<noteq> None \<and> location_filter h) \<and>
             date_filter_nullable ck conds (event_date events)
          then Some (tracked_entity_instance_id events, dim_org_hierarchy_key events)
          else None)
       (left_join (\<lambda>(events, outcome) doh. same_key (dim_org_hierarchy_key events) doh)
          (left_join (\<lambda>events outcome. tracked_entity_instance_id events = Some (entity_id outcome) \<and>
                                        attribute_id outcome = ''ulE2j2pFgDl'')
             (fact_eidsr_event_data db) (fact_eidsr_tracked_entity_attributes db))
          (dim_eidsr_org_hierarchy db))"

definition deaths_by_district_query ::
  "clock \<Rightarrow> (org_hierarchy \<Rightarrow> bool) \<Rightarrow> date_condition list \<Rightarrow> dwh \<Rightarrow> (string option \<times> nat) list"
where
  "deaths_by_district_query ck location_filter conds db =
     (let jd = inner_join (\<lambda>(tei, k) doh. same_key k doh)
                 (joined_data ck location_filter conds db) (dim_eidsr_org_hierarchy db)
      in order_by_desc snd
           (filter (\<lambda>(district, deaths). deaths > 0)
              (map (\<lambda>n. (n, count_distinct
                             (List.map_filter (\<lambda>((tei, k), doh). tei)
                                (filter (\<lambda>((tei, k), doh). district_name doh = n) jd))))
                 (remdups (map (\<lambda>((tei, k), doh). district_name doh) jd)))))"

definition get_measles_deaths_by_district ::
  "connection \<Rightarrow> clock \<Rightarrow> (org_hierarchy \<Rightarrow> bool) \<Rightarrow> int option \<Rightarrow> string option \<Rightarrow>
   (string option \<times> nat) list"
where
  "get_measles_deaths_by_district conn ck location_filter year month =
     (case conn of
        Inl e \<Rightarrow> []
      | Inr db \<Rightarrow>
          (case time_filtering year month of
             Inl e \<Rightarrow> []
           | Inr date_conditions \<Rightarrow>
               deaths_by_district_query ck location_filter date_conditions db))"

text \<open>
  \<^verbatim>\<open>choropleth_data.py\<close>, \<^verbatim>\<open>get_measles_cumulative_cases_by_district()\<close>: the rows of
  the query, and the dictionary \<^verbatim>\<open>dict(zip(df['district_name'], df['total_cases']))\<close>,
  in which a later row would replace an earlier one of the same name. The CTE
  \<^verbatim>\<open>measles_events\<close> of this query is that of the district ranking without a year.
\<close>

definition cumulative_cases_by_district_query :: "dwh \<Rightarrow> (string \<times> nat) list" where
  "cumulative_cases_by_district_query db =
     (let joined = List.map_filter
            (\<lambda>((i, d, k), doh).
               case district_name doh of
                 None \<Rightarrow> None
               | Some n \<Rightarrow> if n \<noteq> ''Unknown'' \<and> n \<noteq> ''1 Test District'' then Some (n, i) else None)
            (inner_join (\<lambda>(i, d, k) doh. same_key k doh)
               (top_measles_events None db) (dim_eidsr_org_hierarchy db))
      in order_by_desc snd
           (map (\<lambda>n. (n, count_distinct (map snd (filter (\<lambda>r. fst r = n) joined))))
              (remdups (map fst joined))))"

definition get_measles_cumulative_cases_by_district :: "connection \<Rightarrow> (string \<rightharpoonup> nat)" where
  "get_measles_cumulative_cases_by_district conn =
     (case conn of
        Inl e \<Rightarrow> Map.empty
      | Inr db \<Rightarrow> map_of (rev (cumulative_cases_by_district_query db)))"




section \<open>Sample warehouses\<close>

text \<open>A measles case with the given event id, year, month, week and hierarchy key.\<close>

definition measles_event :: "nat \<Rightarrow> int \<Rightarrow> int \<Rightarrow> int \<Rightarrow> nat \<Rightarrow> event_data" where
  "measles_event i y m w k =
     \<lparr>event_id = i, tracked_entity_instance_id = Some i,
      event_date = Some \<lparr>day_number = 7 * w, extract_year = y, extract_month = m,
                         extract_week = w\<rparr>,
      dim_org_hierarchy_key = Some k, data_element_id = ''qIlO7yEpiVv'',
      data_element_display_name = Some ''Disease'',
      data_value = Some ''Measles (B05.0_B05.9)''\<rparr>"

text \<open>
  The scenario of the specification: three cases in one district, one in week 10 and
  two in week 11 of 2024.
\<close>

definition scenario_db :: dwh where
  "scenario_db =
     \<lparr>fact_eidsr_event_data =
        [measles_event 1 2024 3 10 1, measles_event 2 2024 3 11 1, measles_event 3 2024 3 11 1],
      dim_eidsr_org_hierarchy =
        [\<lparr>org_hierarchy_key = 1, district_name = Some ''Gulu'', region_name = Some ''Northern''\<rparr>],
      fact_eidsr_tracked_entity_attributes = []\<rparr>"

text \<open>One case in each of the weeks 1 to 11 of 2024.\<close>

definition eleven_weeks_db :: dwh where
  "eleven_weeks_db =
     \<lparr>fact_eidsr_event_data = 
        [measles_event 1 2024 1 1 1,
         measles_event 2 2024 1 2 1,
         measles_event 3 2024 1 3 1,
         measles_event 4 2024 1 4 1,
         measles_event 5 2024 2 5 1,
         measles_event 6 2024 2 6 1,
         measles_event 7 2024 2 7 1,
         measles_event 8 2024 2 8 1,
         measles_event 9 2024 3 9 1,
         measles_event 10 2024 3 10 1,
         measles_event 11 2024 3 11 1],
      dim_eidsr_org_hierarchy =
        [\<lparr>org_hierarchy_key = 1, district_name = Some ''Gulu'', region_name = Some ''Northern''\<rparr>],
      fact_eidsr_tracked_entity_attributes = []\<rparr>"

text \<open>One measles case, in February 2024, in the district Gulu.\<close>

definition feb_2024_db :: dwh where
  "feb_2024_db =
     \<lparr>fact_eidsr_event_data =
        [\<lparr>event_id = 1, tracked_entity_instance_id = Some 1,
          event_date = Some \<lparr>day_number = 19764, extract_year = 2024, extract_month = 2,
                             extract_week = 7\<rparr>,
          dim_org_hierarchy_key = Some 1, data_element_id = ''qIlO7yEpiVv'',
          data_element_display_name = Some ''Disease'',
          data_value = Some ''Measles (B05.0_B05.9)''\<rparr>],
      dim_eidsr_org_hierarchy =
        [\<lparr>org_hierarchy_key = 1, district_name = Some ''Gulu'', region_name = Some ''Northern''\<rparr>],
      fact_eidsr_tracked_entity_attributes = []\<rparr>"

definition any_time :: clock where
  "any_time = \<lparr>within_days = (\<lambda>n d. True), within_hours = (\<lambda>n d. True)\<rparr>"

text \<open>Two cases in one district: week 50 of 2023 and week 3 of 2024.\<close>

definition two_years_db :: dwh where
  "two_years_db =
     \<lparr>fact_eidsr_event_data = [measles_event 1 2023 12 50 1, measles_event 2 2024 1 3 1],
      dim_eidsr_org_hierarchy =
        [\<lparr>org_hierarchy_key = 1, district_name = Some ''Gulu'', region_name = Some ''Northern''\<rparr>],
      fact_eidsr_tracked_entity_attributes = []\<rparr>"

text \<open>The outcome attribute of an entity, with the value \<open>Dead\<close>.\<close>

definition dead :: "nat \<Rightarrow> entity_attribute" where
  "dead i = \<lparr>entity_id = i, attribute_id = ''ulE2j2pFgDl'', display_name = ''Outcome'',
             attribute_value = Some ''Dead''\<rparr>"

text \<open>
  Two deaths, one in a district named \<open>Unknown\<close> and one in the test district.
\<close>

definition sentinel_db :: dwh where
  "sentinel_db =
     \<lparr>fact_eidsr_event_data = [measles_event 1 2024 3 10 1, measles_event 2 2024 3 10 2],
      dim_eidsr_org_hierarchy =
        [\<lparr>org_hierarchy_key = 1, district_name = Some ''Unknown'', region_name = None\<rparr>,
         \<lparr>org_hierarchy_key = 2, district_name = Some ''1 Test District'', region_name = None\<rparr>],
      fact_eidsr_tracked_entity_attributes = [dead 1, dead 2]\<rparr>"



section \<open>Properties of the classifier\<close>

lemma starts_with_append: "starts_with p (p @ s)"
  by (induction p) simp_all

lemma starts_with_iff: "starts_with p s \<longleftrightarrow> (\<exists>t. s = p @ t)"
proof (induction p s rule: starts_with.induct)
  case (1 s)
  then show ?case by simp
next
  case (2 p ps)
  then show ?case by simp
next
  case (3 p ps c cs)
  then show ?case by auto
qed

lemma like_contains_iff: "like_contains p s \<longleftrightarrow> (\<exists>a b. s = a @ p @ b)"
proof (induction s)
  case Nil
  then show ?case by auto
next
  case (Cons c cs)
  show ?case
  proof
    assume "like_contains p (c # cs)"
    then consider "starts_with p (c # cs)" | "like_contains p cs" by auto
    then show "\<exists>a b. c # cs = a @ p @ b"
    proof cases
      case 1
      then obtain t where "c # cs = p @ t" by (auto simp: starts_with_iff)
      then have "c # cs = [] @ p @ t" by simp
      then show ?thesis by blast
    next
      case 2
      then obtain a b where "cs = a @ p @ b" using Cons.IH by blast
      then have "c # cs = (c # a) @ p @ b" by simp
      then show ?thesis by blast
    qed
  next
    assume "\<exists>a b. c # cs = a @ p @ b"
    then obtain a b where ab: "c # cs = a @ p @ b" by blast
    show "like_contains p (c # cs)"
    proof (cases a)
      case Nil
      with ab have "starts_with p (c # cs)" by (auto simp: starts_with_iff)
      then show ?thesis by simp
    next
      case (Cons x a')
      with ab have "cs = a' @ p @ b" by simp
      then have "like_contains p cs" using Cons.IH by blast
      then show ?thesis by simp
    qed
  qed
qed

lemma female_contains_male:
  "like_contains ''female'' s \<Longrightarrow> like_contains ''male'' s"
proof -
  assume "like_contains ''female'' s"
  then obtain a b where "s = a @ ''female'' @ b" by (auto simp: like_contains_iff)
  then have "s = (a @ ''fe'') @ ''male'' @ b" by simp
  then show ?thesis unfolding like_contains_iff by blast
qed

lemma all_digits_not_iso: "all_digits s \<Longrightarrow> \<not> looks_like_iso_date s"
proof
  assume a: "all_digits s" and b: "looks_like_iso_date s"
  from b have "4 < length s" "s ! 4 = CHR ''-''" by (simp_all add: looks_like_iso_date_def)
  moreover from a have "\<forall>c\<in>set s. is_digit c" by (simp add: all_digits_def list_all_iff)
  ultimately have "is_digit CHR ''-''" using nth_mem by metis
  then show False by (simp add: is_digit_def)
qed

lemma all_digits_not_slash: "all_digits s \<Longrightarrow> \<not> looks_like_slash_date s"
proof
  assume a: "all_digits s" and b: "looks_like_slash_date s"
  from b have "2 < length s" "s ! 2 = CHR ''/''" by (simp_all add: looks_like_slash_date_def)
  moreover from a have "\<forall>c\<in>set s. is_digit c" by (simp add: all_digits_def list_all_iff)
  ultimately have "is_digit CHR ''/''" using nth_mem by metis
  then show False by (simp add: is_digit_def)
qed

lemma age_sex_data_band_table:
  "b \<in> set five_year_bands \<Longrightarrow> in_band n b \<Longrightarrow> age_sex_data_band n = band_label b"
  unfolding five_year_bands_def in_band_def band_label_def age_sex_data_band_def between_def
  by (elim disjE | simp)+

lemma age_sex_processed_table:
  "b \<in> set coarse_bands \<Longrightarrow> in_band n b \<Longrightarrow> age_sex_processed_age_group (Some n) = band_label b"
  unfolding coarse_bands_def in_band_def band_label_def age_sex_processed_age_group_def between_def
  by (elim disjE | simp)+

lemma cast_int_in_range:
  "all_digits s \<Longrightarrow> nat_of_digits s \<le> 2147483647 \<Longrightarrow> cast_int s = Inr (int (nat_of_digits s))"
  by (simp add: cast_int_def)

lemma calculated_age_digits:
  "all_digits s \<Longrightarrow> calculated_age f g s = map_sum id Some (cast_int s)"
  by (simp add: calculated_age_def all_digits_not_iso all_digits_not_slash)


section \<open>Claims about the demographic classifier\<close>

text \<open>
  C8, as the code has it. At the call sites with five-year bands
  (\<^verbatim>\<open>get_measles_age_sex_distribution\<close>) a string of digits whose value fits a 32-bit
  integer goes to the band of the table that holds its value, so \<open>7\<close> goes to \<open>5-9\<close>;
  every string that is not made of digits only goes to \<open>Unknown\<close>, and that includes
  \<open>abc\<close> and \<open>3 months\<close>. At the coarse call site (\<^verbatim>\<open>get_measles_demographic_data\<close>)
  a string of digits in range goes to the band of the coarse table (\<open>7\<close> to
  \<open>5-14 years\<close>), a string with no digit and neither \<open>month\<close> nor \<open>week\<close> in it goes to
  \<open>Unknown\<close>, and a string that is neither a date nor all digits and has \<open>month\<close> or
  \<open>week\<close> in it, in any case, goes to the youngest band \<open><1 year\<close>. The first
  definition of the age and sex distribution and the attack rates by age and sex test
  for digits in the same way as the five-year call site: there \<open>7\<close> goes to \<open>5-9\<close> and
  to \<open>5-14\<close>, and whatever is not made of digits, to \<open>Unknown\<close>.
\<close>

theorem age_classification_by_call_site:
  "(all_digits s \<and> nat_of_digits s \<le> 2147483647 \<and> b \<in> set five_year_bands \<and>
      in_band (int (nat_of_digits s)) b
      \<longrightarrow> age_sex_data_age_group (Some s) = Inr (band_label b))
   \<and> (\<not> all_digits s \<longrightarrow> age_sex_data_age_group (Some s) = Inr ''Unknown'')
   \<and> (all_digits s \<and> nat_of_digits s \<le> 2147483647 \<and> c \<in> set coarse_bands \<and>
      in_band (int (nat_of_digits s)) c
      \<longrightarrow> demographic_age_group f g s = Inr (band_label c))
   \<and> (\<not> has_digit s \<and> \<not> like_contains ''month'' (sql_lower s) \<and>
      \<not> like_contains ''week'' (sql_lower s)
      \<longrightarrow> demographic_age_group f g s = Inr ''Unknown'')
   \<and> (\<not> looks_like_iso_date s \<and> \<not> looks_like_slash_date s \<and> \<not> all_digits s \<and>
      (like_contains ''month'' (sql_lower s) \<or> like_contains ''week'' (sql_lower s))
      \<longrightarrow> demographic_age_group f g s = Inr ''<1 year'')
   \<and> age_sex_data_age_group (Some ''7'') = Inr ''5-9''
   \<and> demographic_age_group f g ''7'' = Inr ''5-14 years''
   \<and> age_sex_data_age_group (Some ''abc'') = Inr ''Unknown''
   \<and> demographic_age_group f g ''abc'' = Inr ''Unknown''
   \<and> demographic_age_group f g ''3 months'' = Inr ''<1 year''
   \<and> age_sex_data_age_group (Some ''3 months'') = Inr ''Unknown''
   \<and> age_data_age_group ''7'' = Inr ''5-9''
   \<and> (\<not> all_digits s \<longrightarrow> age_data_age_group s = Inr ''Unknown'')
   \<and> case_counts_age_group (Some ''7'') = Inr ''5-14''
   \<and> (\<not> all_digits s \<longrightarrow> case_counts_age_group (Some s) = Inr ''Unknown'')"
proof -
  have five: "all_digits s \<and> nat_of_digits s \<le> 2147483647 \<and> b \<in> set five_year_bands \<and>
      in_band (int (nat_of_digits s)) b
      \<longrightarrow> age_sex_data_age_group (Some s) = Inr (band_label b)"
    by (simp add: age_sex_data_age_group_def cast_int_in_range age_sex_data_band_table)
  have nondig: "\<not> all_digits s \<longrightarrow> age_sex_data_age_group (Some s) = Inr ''Unknown''"
    by (simp add: age_sex_data_age_group_def)
  have coarse: "all_digits s \<and> nat_of_digits s \<le> 2147483647 \<and> c \<in> set coarse_bands \<and>
      in_band (int (nat_of_digits s)) c
      \<longrightarrow> demographic_age_group f g s = Inr (band_label c)"
    by (simp add: demographic_age_group_def calculated_age_digits cast_int_in_range
        age_sex_processed_table)
  have unknown: "\<not> has_digit s \<and> \<not> like_contains ''month'' (sql_lower s) \<and>
      \<not> like_contains ''week'' (sql_lower s)
      \<longrightarrow> demographic_age_group f g s = Inr ''Unknown''"
  proof
    assume h: "\<not> has_digit s \<and> \<not> like_contains ''month'' (sql_lower s) \<and>
      \<not> like_contains ''week'' (sql_lower s)"
    then have nd: "\<forall>c\<in>set s. \<not> is_digit c" by (simp add: has_digit_def list_ex_iff)
    have "\<not> all_digits s"
    proof
      assume "all_digits s"
      then have "s \<noteq> []" "\<forall>c\<in>set s. is_digit c" by (simp_all add: all_digits_def list_all_iff)
      with nd show False by (cases s) auto
    qed
    moreover have "\<not> looks_like_iso_date s"
    proof
      assume "looks_like_iso_date s"
      then have "0 < length s" "is_digit (s ! 0)"
        by (cases s; simp add: looks_like_iso_date_def)+
      with nd show False using nth_mem by blast
    qed
    moreover have "\<not> looks_like_slash_date s"
    proof
      assume "looks_like_slash_date s"
      then have "0 < length s" "is_digit (s ! 0)"
        by (cases s; simp add: looks_like_slash_date_def)+
      with nd show False using nth_mem by blast
    qed
    ultimately show "demographic_age_group f g s = Inr ''Unknown''"
      using h by (simp add: demographic_age_group_def calculated_age_def
          age_sex_processed_age_group_def)
  qed
  have infant: "\<not> looks_like_iso_date s \<and> \<not> looks_like_slash_date s \<and> \<not> all_digits s \<and>
      (like_contains ''month'' (sql_lower s) \<or> like_contains ''week'' (sql_lower s))
      \<longrightarrow> demographic_age_group f g s = Inr ''<1 year''"
    by (auto simp: demographic_age_group_def calculated_age_def age_sex_processed_age_group_def)
  have e1: "age_sex_data_age_group (Some ''7'') = Inr ''5-9''"
    by (simp add: age_sex_data_age_group_def all_digits_def is_digit_def cast_int_def
        nat_of_digits_def digit_val_def age_sex_data_band_def between_def)
  have e2: "demographic_age_group f g ''7'' = Inr ''5-14 years''"
    by (simp add: demographic_age_group_def calculated_age_def looks_like_iso_date_def
        looks_like_slash_date_def all_digits_def is_digit_def age_sex_processed_age_group_def
        cast_int_def nat_of_digits_def digit_val_def between_def)
  have e3: "age_sex_data_age_group (Some ''abc'') = Inr ''Unknown''"
    by (simp add: age_sex_data_age_group_def all_digits_def is_digit_def)
  have e4: "demographic_age_group f g ''abc'' = Inr ''Unknown''"
    by (simp add: demographic_age_group_def calculated_age_def looks_like_iso_date_def
        looks_like_slash_date_def all_digits_def has_digit_def is_digit_def sql_lower_def
        lower_char_def age_sex_processed_age_group_def)
  have e5: "demographic_age_group f g ''3 months'' = Inr ''<1 year''"
    by (simp add: demographic_age_group_def calculated_age_def looks_like_iso_date_def
        looks_like_slash_date_def all_digits_def is_digit_def sql_lower_def lower_char_def
        age_sex_processed_age_group_def)
  have e6: "age_sex_data_age_group (Some ''3 months'') = Inr ''Unknown''"
    by (simp add: age_sex_data_age_group_def all_digits_def is_digit_def)
  have l1: "age_data_age_group ''7'' = Inr ''5-9''"
    by (simp add: age_data_age_group_def all_digits_def is_digit_def cast_int_def
        nat_of_digits_def digit_val_def age_data_band_def between_def)
  have l2: "\<not> all_digits s \<longrightarrow> age_data_age_group s = Inr ''Unknown''"
    by (simp add: age_data_age_group_def)
  have r1: "case_counts_age_group (Some ''7'') = Inr ''5-14''"
    by (simp add: case_counts_age_group_def all_digits_def is_digit_def cast_int_def
        nat_of_digits_def digit_val_def case_counts_band_def between_def)
  have r2: "\<not> all_digits s \<longrightarrow> case_counts_age_group (Some s) = Inr ''Unknown''"
    by (simp add: case_counts_age_group_def)
  from five nondig coarse unknown infant e1 e2 e3 e4 e5 e6 l1 l2 r1 r2 show ?thesis by blast
qed

text \<open>
  The claim as written sends \<open>3 months\<close> to the youngest band at every call site. At
  the five-year call site it is \<open>Unknown\<close>, although the text contains \<open>month\<close>.
\<close>

theorem age_classification_counterexample:
  "like_contains ''month'' (sql_lower ''3 months'') \<and>
   age_sex_data_age_group (Some ''3 months'') = Inr ''Unknown'' \<and>
   age_sex_data_age_group (Some ''3 months'') \<noteq> Inr ''0-4''"
  by (simp add: age_sex_data_age_group_def all_digits_def is_digit_def sql_lower_def
      lower_char_def)

theorem age_classification_by_call_site_witness:
  "all_digits ''12'' \<and> nat_of_digits ''12'' \<le> 2147483647 \<and>
   (10, Some 14, ''10-14'') \<in> set five_year_bands \<and>
   in_band (int (nat_of_digits ''12'')) (10, Some 14, ''10-14'') \<and>
   age_sex_data_age_group (Some ''12'') = Inr ''10-14'' \<and>
   (5, Some 14, ''5-14 years'') \<in> set coarse_bands \<and>
   in_band (int (nat_of_digits ''12'')) (5, Some 14, ''5-14 years'') \<and>
   demographic_age_group (\<lambda>v. Inr 0) (\<lambda>v. Inr 0) ''12'' = Inr ''5-14 years'' \<and>
   \<not> all_digits ''two'' \<and> age_sex_data_age_group (Some ''two'') = Inr ''Unknown'' \<and>
   \<not> has_digit ''two'' \<and> \<not> like_contains ''month'' (sql_lower ''two'') \<and>
   \<not> like_contains ''week'' (sql_lower ''two'') \<and>
   demographic_age_group (\<lambda>v. Inr 0) (\<lambda>v. Inr 0) ''two'' = Inr ''Unknown'' \<and>
   \<not> looks_like_iso_date ''6 Weeks'' \<and> \<not> looks_like_slash_date ''6 Weeks'' \<and>
   \<not> all_digits ''6 Weeks'' \<and> like_contains ''week'' (sql_lower ''6 Weeks'') \<and>
   demographic_age_group (\<lambda>v. Inr 0) (\<lambda>v. Inr 0) ''6 Weeks'' = Inr ''<1 year''"
proof -
  have h1: "all_digits ''12'' \<and> nat_of_digits ''12'' \<le> 2147483647 \<and>
      (10, Some 14, ''10-14'') \<in> set five_year_bands \<and>
      in_band (int (nat_of_digits ''12'')) (10, Some 14, ''10-14'') \<and>
      (5, Some 14, ''5-14 years'') \<in> set coarse_bands \<and>
      in_band (int (nat_of_digits ''12'')) (5, Some 14, ''5-14 years'')"
    by (simp add: all_digits_def is_digit_def nat_of_digits_def digit_val_def
        five_year_bands_def coarse_bands_def in_band_def)
  have h2: "\<not> all_digits ''two'' \<and> \<not> has_digit ''two'' \<and>
      \<not> like_contains ''month'' (sql_lower ''two'') \<and>
      \<not> like_contains ''week'' (sql_lower ''two'')"
    by (simp add: all_digits_def has_digit_def is_digit_def sql_lower_def lower_char_def)
  have h3: "\<not> looks_like_iso_date ''6 Weeks'' \<and> \<not> looks_like_slash_date ''6 Weeks'' \<and>
      \<not> all_digits ''6 Weeks'' \<and> like_contains ''week'' (sql_lower ''6 Weeks'')"
    by (simp add: looks_like_iso_date_def looks_like_slash_date_def all_digits_def
        is_digit_def sql_lower_def lower_char_def)
  show ?thesis
    using h1 h2 h3
      age_classification_by_call_site [of "''12''" "(10, Some 14, ''10-14'')"
        "(5, Some 14, ''5-14 years'')" "\<lambda>v. Inr 0" "\<lambda>v. Inr 0"]
      age_classification_by_call_site [of "''two''" "(10, Some 14, ''10-14'')"
        "(5, Some 14, ''5-14 years'')" "\<lambda>v. Inr 0" "\<lambda>v. Inr 0"]
      age_classification_by_call_site [of "''6 Weeks''" "(10, Some 14, ''10-14'')"
        "(5, Some 14, ''5-14 years'')" "\<lambda>v. Inr 0" "\<lambda>v. Inr 0"]
    by (simp add: band_label_def)
qed

text \<open>
  C9, as the code has it. Where the \<^verbatim>\<open>LIKE\<close> rule is used (gender distribution,
  age and sex distribution, demographic data) the category depends on the lowered text
  only: \<open>Female\<close> when it contains \<open>female\<close>, \<open>Male\<close> when it contains \<open>male\<close> and not
  \<open>female\<close>, \<open>Unknown\<close> otherwise; so \<open>FEMALE\<close> is \<open>Female\<close>, \<open>unspecified\<close> is
  \<open>Unknown\<close> and \<open>transmale\<close> is \<open>Male\<close>. The weekly series by sex compares the whole
  lowered text with \<open>male\<close> and \<open>female\<close>; whenever it decides on a sex, the \<^verbatim>\<open>LIKE\<close>
  rule decides the same.
\<close>

theorem sex_classification_by_call_site:
  "sex_category (Some s) =
     (if like_contains ''female'' (sql_lower s) then ''Female''
      else if like_contains ''male'' (sql_lower s) then ''Male''
      else ''Unknown'')
   \<and> (sql_lower s = sql_lower t \<longrightarrow> sex_category (Some s) = sex_category (Some t))
   \<and> sex_category (Some ''Male'') = ''Male''
   \<and> sex_category (Some ''FEMALE'') = ''Female''
   \<and> sex_category (Some ''unspecified'') = ''Unknown''
   \<and> sex_category (Some ''transmale'') = ''Male''
   \<and> sex_data_sex_group (Some s) =
     (if sql_lower s = ''male'' then ''Male''
      else if sql_lower s = ''female'' then ''Female''
      else ''Unknown'')
   \<and> (sex_data_sex_group (Some s) \<noteq> ''Unknown''
      \<longrightarrow> sex_category (Some s) = sex_data_sex_group (Some s))"
proof -
  have rule: "sex_category (Some s) =
     (if like_contains ''female'' (sql_lower s) then ''Female''
      else if like_contains ''male'' (sql_lower s) then ''Male''
      else ''Unknown'')"
    using female_contains_male [of "sql_lower s"] by (auto simp: sex_category_def)
  have ci: "sql_lower s = sql_lower t \<longrightarrow> sex_category (Some s) = sex_category (Some t)"
    by (simp add: sex_category_def)
  have e1: "sex_category (Some ''Male'') = ''Male''"
    by (simp add: sex_category_def sql_lower_def lower_char_def)
  have e2: "sex_category (Some ''FEMALE'') = ''Female''"
    by (simp add: sex_category_def sql_lower_def lower_char_def)
  have e3: "sex_category (Some ''unspecified'') = ''Unknown''"
    by (simp add: sex_category_def sql_lower_def lower_char_def)
  have e4: "sex_category (Some ''transmale'') = ''Male''"
    by (simp add: sex_category_def sql_lower_def lower_char_def)
  have weekly: "sex_data_sex_group (Some s) =
     (if sql_lower s = ''male'' then ''Male''
      else if sql_lower s = ''female'' then ''Female''
      else ''Unknown'')"
    by (simp add: sex_data_sex_group_def)
  have agree: "sex_data_sex_group (Some s) \<noteq> ''Unknown''
      \<longrightarrow> sex_category (Some s) = sex_data_sex_group (Some s)"
    by (auto simp: sex_data_sex_group_def sex_category_def)
  from rule ci e1 e2 e3 e4 weekly agree show ?thesis by blast
qed

text \<open>
  The claim as written makes every call site match substrings. At the weekly series by
  sex, \<open>transmale\<close> contains \<open>male\<close> and not \<open>female\<close>, and is \<open>Unknown\<close>.
\<close>

theorem sex_classification_counterexample:
  "like_contains ''male'' (sql_lower ''transmale'') \<and>
   \<not> like_contains ''female'' (sql_lower ''transmale'') \<and>
   sex_data_sex_group (Some ''transmale'') = ''Unknown'' \<and>
   sex_data_sex_group (Some ''transmale'') \<noteq> ''Male''"
  by (simp add: sex_data_sex_group_def sql_lower_def lower_char_def)

theorem sex_classification_by_call_site_witness:
  "sql_lower ''FeMale'' = sql_lower ''female'' \<and>
   sex_category (Some ''FeMale'') = sex_category (Some ''female'') \<and>
   sex_data_sex_group (Some ''FeMale'') \<noteq> ''Unknown'' \<and>
   sex_category (Some ''FeMale'') = sex_data_sex_group (Some ''FeMale'')"
proof -
  have h: "sql_lower ''FeMale'' = sql_lower ''female'' \<and>
      sex_data_sex_group (Some ''FeMale'') \<noteq> ''Unknown''"
    by (simp add: sex_data_sex_group_def sql_lower_def lower_char_def)
  show ?thesis
    using sex_classification_by_call_site [of "''FeMale''" "''female''"] h
    by (auto simp: sql_lower_def lower_char_def)
qed

section \<open>Claims about the rate normaliser\<close>

lemma floor_int_plus_half: "\<lfloor>real_of_int m + 1 / 2\<rfloor> = m"
  by linarith

lemma sql_round_of_nat: "sql_round (of_nat k) d = of_nat k"
proof -
  have "real k * 10 ^ d + 1 / 2 = real_of_int (int k * 10 ^ d) + 1 / 2" by simp
  then have "\<lfloor>real k * 10 ^ d + 1 / 2\<rfloor> = int k * 10 ^ d"
    using floor_int_plus_half [of "int k * 10 ^ d"] by simp
  then show ?thesis by (simp add: sql_round_def)
qed

lemma round_half_even_close: "\<bar>of_int (round_half_even x) - x\<bar> \<le> 1 / 2"
  unfolding round_half_even_def by (auto; linarith)

lemma np_round_close: "\<bar>np_round x 2 - x\<bar> \<le> 1 / 200"
proof -
  have "\<bar>of_int (round_half_even (x * 100)) - x * 100\<bar> \<le> 1 / 2" by (rule round_half_even_close)
  then show ?thesis by (simp add: np_round_def field_simps abs_le_iff)
qed

lemma saturating_1000:
  "sql_round (real n * 100000 / real (max n 1000)) 2 = real (min (100 * n) 100000)"
proof (cases "n \<le> 1000")
  case True
  then have "real n * 100000 / real (max n 1000) = real (100 * n)" by (simp add: max_def)
  then show ?thesis using True sql_round_of_nat [of "100 * n" 2] by (simp add: min_def)
next
  case False
  then have "real n * 100000 / real (max n 1000) = real 100000" by (simp add: max_def)
  then show ?thesis using False sql_round_of_nat [of 100000 2] by (simp add: min_def)
qed

lemma saturating_500:
  "sql_round (real n * 100000 / real (max n 500)) 2 = real (min (200 * n) 100000)"
proof (cases "n \<le> 500")
  case True
  then have "real n * 100000 / real (max n 500) = real (200 * n)" by (simp add: max_def)
  then show ?thesis using True sql_round_of_nat [of "200 * n" 2] by (simp add: min_def)
next
  case False
  then have "real n * 100000 / real (max n 500) = real 100000" by (simp add: max_def)
  then show ?thesis using False sql_round_of_nat [of 100000 2] by (simp add: min_def)
qed

lemma with_attack_rates_columns:
  "map (\<lambda>(g, f, m, fr, mr). (fr, mr)) (with_attack_rates df) =
     zip (attack_rate_column (map (\<lambda>(g, f, m). f) df))
         (attack_rate_column (map (\<lambda>(g, f, m). m) df))"
proof -
  have len: "length (zip (attack_rate_column (map (\<lambda>(g, f, m). f) df))
                         (attack_rate_column (map (\<lambda>(g, f, m). m) df))) = length df"
    by (simp add: attack_rate_column_def)
  have "map (\<lambda>(g, f, m, fr, mr). (fr, mr)) (with_attack_rates df) =
        map snd (zip df (zip (attack_rate_column (map (\<lambda>(g, f, m). f) df))
                             (attack_rate_column (map (\<lambda>(g, f, m). m) df))))"
    by (auto simp: with_attack_rates_def)
  also have "\<dots> = zip (attack_rate_column (map (\<lambda>(g, f, m). f) df))
                      (attack_rate_column (map (\<lambda>(g, f, m). m) df))"
    using len by (metis map_snd_zip)
  finally show ?thesis .
qed

lemma attack_rate_column_nth:
  "i < length cs \<Longrightarrow> sum_list cs \<noteq> 0 \<Longrightarrow>
   attack_rate_column cs ! i = Some (np_round (real (cs ! i) / real (sum_list cs) * 100000) 2)"
  by (simp add: attack_rate_column_def)

text \<open>
  C10. The two conventions stay apart. The attack rate by age and sex of row \<open>i\<close> is the
  count of the row divided by the sum of the column, times 100000, rounded to two
  decimals: a share of the result set, within half a hundredth of the exact quotient.
  The choropleth rates are \<open>count * 100000 / GREATEST(count, floor)\<close> with the floor 1000
  (cumulative) and 500 (last 21 days): they grow by 100, and by 200, per case, stop at
  100000 and never exceed it. The two rate columns that
  \<^verbatim>\<open>get_measles_attack_rates_by_age_sex\<close> appends are the shares of the female and of
  the male column.
\<close>

theorem rate_conventions:
  "(i < length cs \<and> sum_list cs \<noteq> 0 \<longrightarrow>
      (\<exists>r. attack_rate_column cs ! i = Some r \<and>
           r = np_round (real (cs ! i) / real (sum_list cs) * 100000) 2 \<and>
           \<bar>r - real (cs ! i) / real (sum_list cs) * 100000\<bar> \<le> 1 / 200))
   \<and> attack_rate_per_100k n = sql_round (real n * 100000 / real (max n 1000)) 2
   \<and> attack_rate_per_100k n = real (min (100 * n) 100000)
   \<and> attack_rate_per_100k n \<le> 100000
   \<and> current_rate_per_100k n = sql_round (real n * 100000 / real (max n 500)) 2
   \<and> current_rate_per_100k n = real (min (200 * n) 100000)
   \<and> current_rate_per_100k n \<le> 100000
   \<and> map (\<lambda>(g, f, m, fr, mr). (fr, mr)) (with_attack_rates df) =
       zip (attack_rate_column (map (\<lambda>(g, f, m). f) df))
           (attack_rate_column (map (\<lambda>(g, f, m). m) df))"
proof -
  have share: "i < length cs \<and> sum_list cs \<noteq> 0 \<longrightarrow>
      (\<exists>r. attack_rate_column cs ! i = Some r \<and>
           r = np_round (real (cs ! i) / real (sum_list cs) * 100000) 2 \<and>
           \<bar>r - real (cs ! i) / real (sum_list cs) * 100000\<bar> \<le> 1 / 200)"
    using attack_rate_column_nth [of i cs]
      np_round_close [of "real (cs ! i) / real (sum_list cs) * 100000"]
    by blast
  have a0: "attack_rate_per_100k n = sql_round (real n * 100000 / real (max n 1000)) 2"
    by (simp add: attack_rate_per_100k_def)
  have c0: "current_rate_per_100k n = sql_round (real n * 100000 / real (max n 500)) 2"
    by (simp add: current_rate_per_100k_def)
  have a1: "attack_rate_per_100k n = real (min (100 * n) 100000)"
    unfolding a0 by (rule saturating_1000)
  have c1: "current_rate_per_100k n = real (min (200 * n) 100000)"
    unfolding c0 by (rule saturating_500)
  have a2: "attack_rate_per_100k n \<le> 100000" unfolding a1 by simp
  have c2: "current_rate_per_100k n \<le> 100000" unfolding c1 by simp
  have w: "map (\<lambda>(g, f, m, fr, mr). (fr, mr)) (with_attack_rates df) =
       zip (attack_rate_column (map (\<lambda>(g, f, m). f) df))
           (attack_rate_column (map (\<lambda>(g, f, m). m) df))"
    by (rule with_attack_rates_columns)
  from share a0 a1 a2 c0 c1 c2 w show ?thesis by blast
qed

theorem rate_conventions_witness:
  "1 < length [12, 8, 15 :: nat] \<and> sum_list [12, 8, 15 :: nat] \<noteq> 0 \<and>
   attack_rate_column [12, 8, 15] ! 1 = Some (2285714 / 100) \<and>
   attack_rate_per_100k 250 = 25000 \<and> attack_rate_per_100k 4000 = 100000 \<and>
   current_rate_per_100k 250 = 50000"
proof -
  have v: "np_round (real ([12, 8, 15] ! 1) / real (sum_list [12, 8, 15]) * 100000) 2 = 2285714 / 100"
    by (simp add: np_round_def round_half_even_def)
  show ?thesis
    using rate_conventions [of 1 "[12, 8, 15]" 250 "[]"]
      rate_conventions [of 1 "[12, 8, 15]" 4000 "[]"] v
    by (simp add: sql_round_def)
qed

section \<open>Claims about the event filter builder\<close>

text \<open>
  The month number is read with \<^verbatim>\<open>.get(month_name, 1)\<close>: a first word that is no month
  name counts as January. Without a year no date condition is built at all, and a
  month is split at the white space of \<^verbatim>\<open>str.split\<close>, the no-break space included.
\<close>

lemma month_num_unknown: "t \<notin> set (map fst month_table) \<Longrightarrow> month_num t = 1"
  by (simp add: month_num_def map_of_eq_None_iff [THEN iffD2])

lemma time_filtering_no_year:
  "time_filtering None mo = Inr []" "time_filtering (Some 0) mo = Inr []"
  by (simp_all add: time_filtering_def)

lemma py_str_2024: "py_str 2024 = ''2024''"
  by (simp add: py_str_def string_of_nat.simps digit_char_def)

lemma time_filtering_no_break_space:
  "time_filtering (Some 2024) (Some (CHR 0xA0 # ''February 2024'')) =
     Inr [Year_Eq 2024, Month_Eq 2]"
  by (simp add: time_filtering_def py_str_2024 first_token_def is_space_def month_num_def
      month_table_def)

lemma time_filtering_february:
  "time_filtering (Some 2024) (Some ''February 2024'') = Inr [Year_Eq 2024, Month_Eq 2]"
  by (simp add: time_filtering_def py_str_2024 first_token_def is_space_def month_num_def
      month_table_def)

lemma time_filtering_all_months:
  "time_filtering (Some 2024) (Some ''All Months 2024'') = Inr [Year_Eq 2024]"
  by (simp add: time_filtering_def py_str_2024)

lemma time_filtering_foo:
  "time_filtering (Some 2024) (Some ''Foo 2024'') = Inr [Year_Eq 2024, Month_Eq 1]"
  by (simp add: time_filtering_def py_str_2024 first_token_def is_space_def month_num_def
      month_table_def)

lemma time_filtering_all_months_other_year:
  "time_filtering (Some 2024) (Some ''All Months 2026'') = Inr [Year_Eq 2024, Month_Eq 1]"
  by (simp add: time_filtering_def py_str_2024 first_token_def is_space_def month_num_def
      month_table_def)

lemma metrics_foo_2024:
  "districts_with_cases (get_district_reporting_metrics (Inr feb_2024_db) any_time
     (\<lambda>doh. True) (Some 2024) (Some ''Foo 2024'') None None) = 0"
  by (simp add: get_district_reporting_metrics_def time_filtering_foo recent_activity_filters_def
      metrics_measles_events_def metrics_districts_with_cases_def feb_2024_db_def
      List.map_filter_def is_measles_def date_filter_def condition_holds_def count_distinct_def)

lemma metrics_all_months_other_year:
  "districts_with_cases (get_district_reporting_metrics (Inr feb_2024_db) any_time
     (\<lambda>doh. True) (Some 2024) (Some ''All Months 2026'') None None) = 0"
  by (simp add: get_district_reporting_metrics_def time_filtering_all_months_other_year
      recent_activity_filters_def
      metrics_measles_events_def metrics_districts_with_cases_def feb_2024_db_def
      List.map_filter_def is_measles_def date_filter_def condition_holds_def count_distinct_def)

lemma metrics_all_months:
  "districts_with_cases (get_district_reporting_metrics (Inr feb_2024_db) any_time
     (\<lambda>doh. True) (Some 2024) (Some ''All Months 2024'') None None) = 1"
  by (simp add: get_district_reporting_metrics_def time_filtering_all_months
      recent_activity_filters_def
      metrics_measles_events_def metrics_districts_with_cases_def feb_2024_db_def
      List.map_filter_def is_measles_def date_filter_def condition_holds_def count_distinct_def)

lemma metrics_year_2024:
  "districts_with_cases (get_district_reporting_metrics (Inr feb_2024_db) any_time
     (\<lambda>doh. True) (Some 2024) None None None) = 1"
  by (simp add: get_district_reporting_metrics_def time_filtering_def recent_activity_filters_def
      metrics_measles_events_def metrics_districts_with_cases_def feb_2024_db_def
      List.map_filter_def is_measles_def date_filter_def condition_holds_def count_distinct_def)

lemma metrics_unfiltered:
  "districts_with_cases (get_district_reporting_metrics (Inr feb_2024_db) any_time
     (\<lambda>doh. True) None None None None) = 1"
  by (simp add: get_district_reporting_metrics_def time_filtering_def recent_activity_filters_def
      metrics_measles_events_def metrics_districts_with_cases_def feb_2024_db_def
      List.map_filter_def is_measles_def date_filter_def condition_holds_def count_distinct_def)

text \<open>
  C7 does not hold of the code. A month whose first word is no month name does not
  fall back to the unfiltered result: with the year 2024 the month \<open>Foo 2024\<close> builds
  the conditions of January 2024, and so does \<open>All Months 2026\<close>, the string the report
  page passes for a missing or malformed month when the year on the page is not the
  current one. On a warehouse with one case in February 2024 both report no district
  with cases, where \<open>All Months 2024\<close>, the year alone and no filter at all report one.
\<close>

theorem unknown_month_filters_january:
  "time_filtering (Some 2024) (Some ''Foo 2024'') = Inr [Year_Eq 2024, Month_Eq 1]
   \<and> time_filtering (Some 2024) (Some ''All Months 2026'') = Inr [Year_Eq 2024, Month_Eq 1]
   \<and> districts_with_cases (get_district_reporting_metrics (Inr feb_2024_db) any_time
        (\<lambda>doh. True) (Some 2024) (Some ''Foo 2024'') None None) = 0
   \<and> districts_with_cases (get_district_reporting_metrics (Inr feb_2024_db) any_time
        (\<lambda>doh. True) (Some 2024) (Some ''All Months 2026'') None None) = 0
   \<and> districts_with_cases (get_district_reporting_metrics (Inr feb_2024_db) any_time
        (\<lambda>doh. True) (Some 2024) (Some ''All Months 2024'') None None) = 1
   \<and> districts_with_cases (get_district_reporting_metrics (Inr feb_2024_db) any_time
        (\<lambda>doh. True) (Some 2024) None None None) = 1
   \<and> districts_with_cases (get_district_reporting_metrics (Inr feb_2024_db) any_time
        (\<lambda>doh. True) None None None None) = 1"
  using time_filtering_foo time_filtering_all_months_other_year metrics_foo_2024
    metrics_all_months_other_year metrics_all_months metrics_year_2024 metrics_unfiltered
  by simp

section \<open>Claims about the epi-week aggregator\<close>

lemma scenario_events:
  "all_measles_events (\<lambda>d. True) scenario_db =
     [(1, \<lparr>day_number = 70, extract_year = 2024, extract_month = 3, extract_week = 10\<rparr>),
      (2, \<lparr>day_number = 77, extract_year = 2024, extract_month = 3, extract_week = 11\<rparr>),
      (3, \<lparr>day_number = 77, extract_year = 2024, extract_month = 3, extract_week = 11\<rparr>)]"
  by (simp add: all_measles_events_def scenario_db_def measles_event_def List.map_filter_def
      is_measles_def)

lemma scenario_buckets:
  "all_weekly_data (all_measles_events (\<lambda>d. True) scenario_db) = [((2024, 10), 1), ((2024, 11), 2)]"
  by (simp add: scenario_events all_weekly_data_def year_week_def count_distinct_def)

lemma scenario_weekly:
  "get_measles_weekly_data (Inr scenario_db) None (\<lambda>d. True) =
     [\<lparr>Year = 2024, Epi_Week = 11, Weekly_Confirmed_Cases = 2, Cumulative_Confirmed_Cases = 3,
       Percent_Change = None\<rparr>,
      \<lparr>Year = 2024, Epi_Week = 10, Weekly_Confirmed_Cases = 1, Cumulative_Confirmed_Cases = 1,
       Percent_Change = Some (- 50)\<rparr>]"
  by (simp add: get_measles_weekly_data_def cumulative_weekly_query_def scenario_buckets
      order_by_desc_def lag_def weekly_row_of_def cumulative_cases_def percent_change_def
      sql_round_def)

lemma eleven_buckets:
  "year_buckets 2024 (year_measles_events (\<lambda>d. True) eleven_weeks_db) =
     [((2024, 1), 1), ((2024, 2), 1), ((2024, 3), 1), ((2024, 4), 1), ((2024, 5), 1),
      ((2024, 6), 1), ((2024, 7), 1), ((2024, 8), 1), ((2024, 9), 1), ((2024, 10), 1),
      ((2024, 11), 1)]"
  by (simp add: year_buckets_def year_measles_events_def eleven_weeks_db_def measles_event_def
      List.map_filter_def is_measles_def all_weekly_data_def year_week_def count_distinct_def)

lemma eleven_weekly_data:
  "weekly_data 2024 (year_measles_events (\<lambda>d. True) eleven_weeks_db) =
     [((2024, 11), 1), ((2024, 10), 1), ((2024, 9), 1), ((2024, 8), 1), ((2024, 7), 1),
      ((2024, 6), 1), ((2024, 5), 1), ((2024, 4), 1), ((2024, 3), 1), ((2024, 2), 1)]"
  by (simp add: weekly_data_def eleven_buckets order_by_desc_def)

lemma eleven_result:
  "map (\<lambda>r. (Epi_Week r, Cumulative_Confirmed_Cases r))
     (get_measles_weekly_data (Inr eleven_weeks_db) (Some 2024) (\<lambda>d. True)) =
     [(11, 10), (10, 9), (9, 8), (8, 7), (7, 6), (6, 5), (5, 4), (4, 3), (3, 2), (2, 1)]"
  by (simp add: get_measles_weekly_data_def single_year_weekly_query_def eleven_weekly_data
      lag_def weekly_row_of_def)

lemma eleven_year_sum:
  "cumulative_cases (year_buckets 2024 (year_measles_events (\<lambda>d. True) eleven_weeks_db)) (2024, 2) = 2"
  by (simp add: eleven_buckets cumulative_cases_def)

lemma set_order_by_desc: "set (order_by_desc key xs) = set xs"
  by (simp add: order_by_desc_def)

lemma cumulative_cases_lex:
  "cumulative_cases awd k = sum_list (map snd (filter (\<lambda>b. fst b \<le> k) awd))"
proof -
  have "(\<lambda>(k2, c). fst k2 < fst k \<or> (fst k2 = fst k \<and> snd k2 \<le> snd k)) =
        (\<lambda>b :: bucket. fst b \<le> k)"
    by (auto simp: fun_eq_iff less_eq_prod_def)
  then show ?thesis by (simp add: cumulative_cases_def)
qed

lemma sum_filter_mono:
  fixes g :: "'a \<Rightarrow> nat"
  shows "(\<And>x. P x \<Longrightarrow> Q x) \<Longrightarrow> sum_list (map g (filter P xs)) \<le> sum_list (map g (filter Q xs))"
  by (induction xs) auto

lemma cumulative_cases_mono:
  "k1 \<le> k2 \<Longrightarrow> cumulative_cases awd k1 \<le> cumulative_cases awd k2"
  unfolding cumulative_cases_lex by (rule sum_filter_mono) (rule order_trans)

lemma cumulative_weekly_query_row:
  assumes "r \<in> set (cumulative_weekly_query dr db)"
  shows "((Year r, Epi_Week r), Weekly_Confirmed_Cases r) \<in> set (all_weekly_data (all_measles_events dr db))
         \<and> Cumulative_Confirmed_Cases r =
             cumulative_cases (all_weekly_data (all_measles_events dr db)) (Year r, Epi_Week r)"
proof -
  let ?awd = "all_weekly_data (all_measles_events dr db)"
  let ?oad = "take 10 (order_by_desc fst ?awd)"
  from assms obtain b p where bp: "(b, p) \<in> set (zip ?oad (lag (map snd ?oad)))"
    and r: "r = weekly_row_of b (cumulative_cases ?awd (fst b)) p"
    by (auto simp: cumulative_weekly_query_def Let_def)
  from bp have "b \<in> set ?oad" by (rule set_zip_leftD)
  then have "b \<in> set ?awd" using set_take_subset set_order_by_desc by fastforce
  with r show ?thesis by (simp add: weekly_row_of_def)
qed

text \<open>
  C6. In the cumulative mode every returned row is a bucket of the whole history, its
  cumulative count is the sum of the weekly counts of all buckets of the history up to
  and including its own (year, week), and of two returned rows the one that is not
  later has the cumulative count that is not larger.
\<close>

theorem cumulative_mode_running_total:
  "(r \<in> set (get_measles_weekly_data (Inr db) None date_range) \<longrightarrow>
      ((Year r, Epi_Week r), Weekly_Confirmed_Cases r)
        \<in> set (all_weekly_data (all_measles_events date_range db)) \<and>
      Cumulative_Confirmed_Cases r =
        sum_list (map snd (filter (\<lambda>b. fst b \<le> (Year r, Epi_Week r))
          (all_weekly_data (all_measles_events date_range db)))))
   \<and> (r1 \<in> set (get_measles_weekly_data (Inr db) None date_range) \<and>
      r2 \<in> set (get_measles_weekly_data (Inr db) None date_range) \<and>
      (Year r1, Epi_Week r1) \<le> (Year r2, Epi_Week r2)
      \<longrightarrow> Cumulative_Confirmed_Cases r1 \<le> Cumulative_Confirmed_Cases r2)"
proof -
  have q: "get_measles_weekly_data (Inr db) None date_range = cumulative_weekly_query date_range db"
    by (simp add: get_measles_weekly_data_def)
  show ?thesis
    unfolding q
    using cumulative_weekly_query_row [of r date_range db]
      cumulative_weekly_query_row [of r1 date_range db]
      cumulative_weekly_query_row [of r2 date_range db]
      cumulative_cases_mono [of "(Year r1, Epi_Week r1)" "(Year r2, Epi_Week r2)"
        "all_weekly_data (all_measles_events date_range db)"]
    by (auto simp: cumulative_cases_lex)
qed

theorem cumulative_mode_running_total_witness:
  "\<lparr>Year = 2024, Epi_Week = 10, Weekly_Confirmed_Cases = 1, Cumulative_Confirmed_Cases = 1,
     Percent_Change = Some (- 50)\<rparr> \<in> set (get_measles_weekly_data (Inr scenario_db) None (\<lambda>d. True)) \<and>
   \<lparr>Year = 2024, Epi_Week = 11, Weekly_Confirmed_Cases = 2, Cumulative_Confirmed_Cases = 3,
     Percent_Change = None\<rparr> \<in> set (get_measles_weekly_data (Inr scenario_db) None (\<lambda>d. True)) \<and>
   ((2024, 10) :: int \<times> int) \<le> (2024, 11) \<and>
   sum_list (map snd (filter (\<lambda>b. fst b \<le> (2024, 11))
     (all_weekly_data (all_measles_events (\<lambda>d. True) scenario_db)))) = 3 \<and>
   (1 :: nat) \<le> 3"
  using cumulative_mode_running_total [of
      "\<lparr>Year = 2024, Epi_Week = 11, Weekly_Confirmed_Cases = 2, Cumulative_Confirmed_Cases = 3,
        Percent_Change = None\<rparr>" scenario_db "\<lambda>d. True"
      "\<lparr>Year = 2024, Epi_Week = 10, Weekly_Confirmed_Cases = 1, Cumulative_Confirmed_Cases = 1,
        Percent_Change = Some (- 50)\<rparr>"
      "\<lparr>Year = 2024, Epi_Week = 11, Weekly_Confirmed_Cases = 2, Cumulative_Confirmed_Cases = 3,
        Percent_Change = None\<rparr>"]
  by (simp add: scenario_weekly less_eq_prod_def)

text \<open>
  C5 does not hold of the code. In the query for one year the \<^verbatim>\<open>LIMIT 10\<close> sits in
  \<^verbatim>\<open>weekly_data\<close>, before the window sum: with one case in each of the weeks 1 to 11
  of 2024, the row of week 2 has the cumulative count 1, while the year's weekly counts
  up to week 2 add up to 2. The branch without a year sums over the whole history.
\<close>

theorem single_year_cumulative_restarts_at_limit:
  "map (\<lambda>r. (Epi_Week r, Cumulative_Confirmed_Cases r))
     (get_measles_weekly_data (Inr eleven_weeks_db) (Some 2024) (\<lambda>d. True)) =
     [(11, 10), (10, 9), (9, 8), (8, 7), (7, 6), (6, 5), (5, 4), (4, 3), (3, 2), (2, 1)]
   \<and> cumulative_cases
       (year_buckets 2024 (year_measles_events (\<lambda>d. True) eleven_weeks_db)) (2024, 2) = 2"
  using eleven_result eleven_year_sum by simp

lemma scenario_single_year:
  "get_measles_weekly_data (Inr scenario_db) (Some 2024) (\<lambda>d. True) =
     [\<lparr>Year = 2024, Epi_Week = 11, Weekly_Confirmed_Cases = 2, Cumulative_Confirmed_Cases = 3,
       Percent_Change = None\<rparr>,
      \<lparr>Year = 2024, Epi_Week = 10, Weekly_Confirmed_Cases = 1, Cumulative_Confirmed_Cases = 1,
       Percent_Change = Some (- 50)\<rparr>]"
  by (simp add: get_measles_weekly_data_def single_year_weekly_query_def weekly_data_def
      year_buckets_def year_measles_events_def scenario_db_def measles_event_def
      List.map_filter_def is_measles_def all_weekly_data_def year_week_def count_distinct_def
      order_by_desc_def lag_def weekly_row_of_def percent_change_def sql_round_def)

text \<open>
  C2 does not hold of the epi-week aggregator. Its \<^verbatim>\<open>LAG\<close> runs over the rows in
  descending order, so \<^verbatim>\<open>prev_week_cases\<close> of a week is the count of the week after
  it. In the scenario of the specification (one case in week 10, two in week 11) week
  11 has no percent change although week 10, before it, has one case, which would make
  it \<open>100\<close>; and week 10, before which there is nothing, has \<open>-50\<close>, computed from
  week 11. Both branches of the function do so.
\<close>

theorem weekly_percent_change_takes_following_week:
  "map (\<lambda>r. (Epi_Week r, Weekly_Confirmed_Cases r, Percent_Change r))
     (get_measles_weekly_data (Inr scenario_db) None (\<lambda>d. True)) =
     [(11, 2, None), (10, 1, Some (- 50))]
   \<and> map (\<lambda>r. (Epi_Week r, Weekly_Confirmed_Cases r, Percent_Change r))
     (get_measles_weekly_data (Inr scenario_db) (Some 2024) (\<lambda>d. True)) =
     [(11, 2, None), (10, 1, Some (- 50))]
   \<and> percent_change 2 (Some 1) = Some 100
   \<and> percent_change 1 None = None"
  using scenario_weekly scenario_single_year by (simp add: percent_change_def sql_round_def)

section \<open>Claims about the district aggregator\<close>

text \<open>
  What the district ranking does as claimed: the week before week 1 is week 52 of the
  year before, and otherwise the week before in the same year; the percent change is
  \<^verbatim>\<open>NULL\<close> on a count of zero and the rounded quotient otherwise; the rows come by
  total cases, then by cases of the last epi-week, both descending, and there are at
  most 12 of them; no row bears the name \<open>Unknown\<close>, \<open>Unknown District\<close> or
  \<open>1 Test District\<close>, and no key of the choropleth mapping is \<open>Unknown\<close> or
  \<open>1 Test District\<close>.
\<close>

lemma previous_epi_week_wrap:
  "previous_epi_week (Some y, Some 1) = (Some (y - 1), Some 52)"
  "w \<noteq> 1 \<Longrightarrow> previous_epi_week (Some y, Some w) = (Some y, Some (w - 1))"
  by (simp_all add: previous_epi_week_def)

lemma percent_change_rule:
  "percent_change cur None = None"
  "percent_change cur (Some 0) = None"
  "0 < p \<Longrightarrow> percent_change cur (Some p) =
     Some (sql_round ((real_of_int (int cur - int p) / real p) * 100) 1)"
  by (simp_all add: percent_change_def)

lemma sorted_order_by_desc: "sorted (rev (map key (order_by_desc key xs)))"
  by (simp add: order_by_desc_def rev_map [symmetric])

lemma sorted_rev_take:
  assumes "sorted (rev ks)"
  shows "sorted (rev (take n ks))"
proof -
  have "rev (take n ks) = drop (length ks - n) (rev ks)" by (simp add: rev_take)
  with assms show ?thesis by (simp add: sorted_wrt_drop)
qed

lemma top_districts_select_keys:
  "map (\<lambda>r. (Total_Cases r, Cases_Last_Epiweek r)) (top_districts_select ds) =
   take 12 (map (\<lambda>(n, total_cases, total_deaths, cases_last, deaths_last, cases_prev).
                   (total_cases, cases_last))
     (order_by_desc (\<lambda>(n, total_cases, total_deaths, cases_last, deaths_last, cases_prev).
                      (total_cases, cases_last))
        (filter (\<lambda>(n, total_cases, total_deaths, cases_last, deaths_last, cases_prev).
                   total_cases > 0 \<and> \<not> like_contains ''Test District'' n \<and>
                   n \<noteq> ''Unknown District'') ds)))"
  by (auto simp: top_districts_select_def take_map)

lemma top_districts_ranked:
  "sorted (rev (map (\<lambda>r. (Total_Cases r, Cases_Last_Epiweek r))
     (get_measles_top_10_districts conn year)))
   \<and> length (get_measles_top_10_districts conn year) \<le> 12"
proof (cases conn)
  case (Inl e)
  then show ?thesis by (simp add: get_measles_top_10_districts_def)
next
  case (Inr db)
  have s: "sorted (rev (map (\<lambda>r. (Total_Cases r, Cases_Last_Epiweek r)) (top_districts_select ds)))"
    for ds
    unfolding top_districts_select_keys by (rule sorted_rev_take) (rule sorted_order_by_desc)
  have l: "length (top_districts_select ds) \<le> 12" for ds
    by (simp add: top_districts_select_def)
  from Inr s l show ?thesis
    by (simp add: get_measles_top_10_districts_def top_districts_query_def Let_def)
qed

lemma district_data_names:
  "x \<in> set (district_data mes des db) \<Longrightarrow> fst x \<noteq> ''Unknown''"
  by (auto simp: district_data_def List.map_filter_def not_null_and_def
      split: option.splits if_splits)

lemma district_summary_names:
  "x \<in> set (district_summary lew pew dd) \<Longrightarrow> fst x \<in> fst ` set dd"
  by (force simp: district_summary_def Let_def)

lemma top_districts_select_names:
  "r \<in> set (top_districts_select ds) \<Longrightarrow>
   District r \<in> fst ` set ds \<and> \<not> like_contains ''Test District'' (District r) \<and>
   District r \<noteq> ''Unknown District''"
proof -
  assume "r \<in> set (top_districts_select ds)"
  then obtain x where x: "x \<in> set (take 12
          (order_by_desc (\<lambda>(n, total_cases, total_deaths, cases_last, deaths_last, cases_prev).
                            (total_cases, cases_last))
             (filter (\<lambda>(n, total_cases, total_deaths, cases_last, deaths_last, cases_prev).
                        total_cases > 0 \<and> \<not> like_contains ''Test District'' n \<and>
                        n \<noteq> ''Unknown District'') ds)))"
    and r: "District r = fst x"
    by (auto simp: top_districts_select_def)
  from x have "x \<in> set (filter (\<lambda>(n, total_cases, total_deaths, cases_last, deaths_last, cases_prev).
                        total_cases > 0 \<and> \<not> like_contains ''Test District'' n \<and>
                        n \<noteq> ''Unknown District'') ds)"
    using set_take_subset by (fastforce simp: order_by_desc_def)
  with r show ?thesis by auto
qed

lemma top_districts_names:
  assumes "r \<in> set (get_measles_top_10_districts conn year)"
  shows "District r \<noteq> ''Unknown'' \<and> District r \<noteq> ''Unknown District'' \<and>
         District r \<noteq> ''1 Test District''"
proof (cases conn)
  case (Inl e)
  with assms show ?thesis by (simp add: get_measles_top_10_districts_def)
next
  case (Inr db)
  let ?mes = "top_measles_events year db"
  let ?lew = "latest_epi_week ?mes"
  let ?dd = "district_data ?mes (death_events db) db"
  from assms Inr have "r \<in> set (top_districts_select (district_summary ?lew (previous_epi_week ?lew) ?dd))"
    by (simp add: get_measles_top_10_districts_def top_districts_query_def Let_def)
  then have a: "District r \<in> fst ` set (district_summary ?lew (previous_epi_week ?lew) ?dd)"
    and b: "\<not> like_contains ''Test District'' (District r)"
    and c: "District r \<noteq> ''Unknown District''"
    using top_districts_select_names by blast+
  from a obtain x where "x \<in> set (district_summary ?lew (previous_epi_week ?lew) ?dd)"
    and "District r = fst x" by auto
  then have "District r \<in> fst ` set ?dd" by (metis district_summary_names)
  then obtain y where "y \<in> set ?dd" and "District r = fst y" by auto
  then have d: "District r \<noteq> ''Unknown''" by (metis district_data_names)
  have "like_contains ''Test District'' ''1 Test District''" by simp
  with b have "District r \<noteq> ''1 Test District''" by auto
  with c d show ?thesis by simp
qed

lemma cumulative_cases_by_district_names:
  assumes "get_measles_cumulative_cases_by_district conn n = Some c"
  shows "n \<noteq> ''Unknown'' \<and> n \<noteq> ''1 Test District''"
proof (cases conn)
  case (Inl e)
  with assms show ?thesis by (simp add: get_measles_cumulative_cases_by_district_def)
next
  case (Inr db)
  with assms have "(n, c) \<in> set (cumulative_cases_by_district_query db)"
    by (auto simp: get_measles_cumulative_cases_by_district_def dest: map_of_SomeD)
  then show ?thesis
    by (auto simp: cumulative_cases_by_district_query_def Let_def order_by_desc_def
        List.map_filter_def split: option.splits if_splits)
qed

lemma two_years_events:
  "top_measles_events None two_years_db =
     [(1, \<lparr>day_number = 350, extract_year = 2023, extract_month = 12, extract_week = 50\<rparr>, Some 1),
      (2, \<lparr>day_number = 21, extract_year = 2024, extract_month = 1, extract_week = 3\<rparr>, Some 1)]"
  by (simp add: top_measles_events_def two_years_db_def measles_event_def List.map_filter_def
      is_measles_def)

lemma two_years_latest:
  "latest_epi_week (top_measles_events None two_years_db) = (Some 2024, Some 50)"
  by (simp add: two_years_events latest_epi_week_def sql_max_def)

lemma two_years_buckets:
  "map fst (all_weekly_data (all_measles_events (\<lambda>d. True) two_years_db)) = [(2023, 50), (2024, 3)]"
  by (simp add: all_weekly_data_def all_measles_events_def two_years_db_def measles_event_def
      List.map_filter_def is_measles_def year_week_def)

lemma two_years_deaths: "death_events two_years_db = []"
  by (simp add: death_events_def two_years_db_def measles_event_def not_null_and_def)

lemma two_years_district_data:
  "district_data (top_measles_events None two_years_db) [] two_years_db =
     [(''Gulu'', 1, 50, 2023, 0), (''Gulu'', 2, 3, 2024, 0)]"
  unfolding two_years_events
  by (simp add: district_data_def left_join_def same_key_def two_years_db_def
      List.map_filter_def not_null_and_def)

lemma two_years_top:
  "get_measles_top_10_districts (Inr two_years_db) None =
     [\<lparr>District = ''Gulu'', Total_Cases = 2, Total_Deaths = 0, Cases_Last_Epiweek = 0,
       Deaths_Last_Epiweek = 0, Percentage_Change_in_Cases = None\<rparr>]"
  by (simp add: get_measles_top_10_districts_def top_districts_query_def two_years_latest
      two_years_deaths two_years_district_data previous_epi_week_def district_summary_def
      in_week_def count_distinct_def top_districts_select_def order_by_desc_def
      percent_change_def)

lemma sentinel_joined:
  "joined_data ck (\<lambda>doh. True) [] sentinel_db = [(Some 1, Some 1), (Some 2, Some 2)]"
  by (simp add: joined_data_def left_join_def same_key_def sentinel_db_def measles_event_def
      dead_def List.map_filter_def not_null_and_def is_measles_def sql_lower_def lower_char_def
      date_filter_nullable_def date_filter_def)

lemma sentinel_query:
  "deaths_by_district_query ck (\<lambda>doh. True) [] sentinel_db =
     [(Some ''Unknown'', 1), (Some ''1 Test District'', 1)]"
  unfolding deaths_by_district_query_def sentinel_joined
  by (simp add: inner_join_def same_key_def sentinel_db_def List.map_filter_def
      count_distinct_def order_by_desc_def)

lemma sentinel_deaths:
  "get_measles_deaths_by_district (Inr sentinel_db) ck (\<lambda>doh. True) None None =
     [(Some ''Unknown'', 1), (Some ''1 Test District'', 1)]"
  by (simp add: get_measles_deaths_by_district_def time_filtering_def sentinel_query)

text \<open>
  C4 does not hold of the code. \<^verbatim>\<open>latest_epi_week\<close> takes the largest year and the
  largest week number separately. With one case in week 50 of 2023 and one in week 3 of
  2024 the latest epi-week is (2024, 50), which is no bucket of the data: the buckets
  are (2023, 50) and (2024, 3). So the district has no case in the last epi-week, where
  the latest bucket present, (2024, 3), has one.
\<close>

theorem latest_epi_week_is_no_bucket:
  "latest_epi_week (top_measles_events None two_years_db) = (Some 2024, Some 50)
   \<and> map fst (all_weekly_data (all_measles_events (\<lambda>d. True) two_years_db)) =
       [(2023, 50), (2024, 3)]
   \<and> get_measles_top_10_districts (Inr two_years_db) None =
       [\<lparr>District = ''Gulu'', Total_Cases = 2, Total_Deaths = 0, Cases_Last_Epiweek = 0,
         Deaths_Last_Epiweek = 0, Percentage_Change_in_Cases = None\<rparr>]"
  using two_years_latest two_years_buckets two_years_top by simp

text \<open>
  C1 does not hold of the code. \<^verbatim>\<open>get_measles_deaths_by_district\<close> asks only for a
  district name that is not \<^verbatim>\<open>NULL\<close>: a death in a district named \<open>Unknown\<close> and a
  death in \<open>1 Test District\<close> are both emitted.
\<close>

theorem deaths_by_district_emits_sentinels:
  "get_measles_deaths_by_district (Inr sentinel_db) any_time (\<lambda>doh. True) None None =
     [(Some ''Unknown'', 1), (Some ''1 Test District'', 1)]"
  by (rule sentinel_deaths)


section \<open>Claims about errors and absent data\<close>




















end
